theory Spec2Isabelle
  imports Main "HOL-Library.AList"
begin

section \<open>Organizational hierarchy: compartments and two-level paths\<close>

text \<open>
  A compartment as the scripts read it from the identity service: \<open>c.id\<close>, \<open>c.name\<close>,
  \<open>c.compartment_id\<close> (the parent, \<open>None\<close> when the attribute is missing or null) and
  \<open>c.lifecycle_state\<close>.
\<close>

record compartment =
  c_id :: string
  c_name :: string
  c_compartment_id :: "string option"
  c_lifecycle_state :: string

text \<open>
  A Python \<open>dict\<close> keeps its keys in insertion order and assigning to an existing key
  replaces the value in place. That is an association list with \<open>AList.update\<close>;
  \<open>d.get(k)\<close> is \<open>map_of d k\<close> and \<open>d.items()\<close> is the list itself.
\<close>

type_synonym ('k, 'v) dict = "('k \<times> 'v) list"

text \<open>\<open>{c.id: c for c in compartments}\<close> (adb\_list.py line 187, filesystem\_list.py line 295).\<close>

definition dict_of_compartments :: "compartment list \<Rightarrow> (string, compartment) dict" where
  "dict_of_compartments compartments = fold (\<lambda>c m. AList.update (c_id c) c m) compartments []"

text \<open>
  The branch that every \<open>build_compartment_paths\<close> runs for a compartment that is not
  handled as the root (adb\_list.py lines 191-202, instance\_list.py lines 151-163,
  dbcs\_list.py lines 198-209, lb\_list.py lines 144-154; the four bodies are the same text).
\<close>

definition child_path ::
  "string \<Rightarrow> string \<Rightarrow> string \<Rightarrow> (string, compartment) dict \<Rightarrow> compartment \<Rightarrow> string" where
  "child_path tenancy_name tenancy_id separator comp_map c =
     (let name = c_name c; parent_id = c_compartment_id c in
      case parent_id of
        None \<Rightarrow> tenancy_name @ separator @ name
      | Some pid \<Rightarrow>
          if pid = tenancy_id then tenancy_name @ separator @ name
          else (case map_of comp_map pid of
                  Some parent \<Rightarrow> c_name parent @ separator @ name
                | None \<Rightarrow> name))"

subsection \<open>adb\_list.py: no root case\<close>

fun adb_list_paths_loop ::
  "string \<Rightarrow> string \<Rightarrow> string \<Rightarrow> (string, compartment) dict \<Rightarrow>
   (string \<times> compartment) list \<Rightarrow> (string, string) dict \<Rightarrow> (string, string) dict" where
  "adb_list_paths_loop tn tid sep comp_map [] paths = paths"
| "adb_list_paths_loop tn tid sep comp_map ((cid, c) # items) paths =
     adb_list_paths_loop tn tid sep comp_map items
       (AList.update cid (child_path tn tid sep comp_map c) paths)"

definition adb_list_build_compartment_paths ::
  "string \<Rightarrow> compartment list \<Rightarrow> string \<Rightarrow> string \<Rightarrow> (string, string) dict" where
  "adb_list_build_compartment_paths TENANCY_NAME compartments tenancy_id separator =
     (let comp_map = dict_of_compartments compartments
      in adb_list_paths_loop TENANCY_NAME tenancy_id separator comp_map comp_map [])"

subsection \<open>instance\_list.py: the root is loaded into the map and gets the tenancy name\<close>

text \<open>
  \<open>load_compartments_with_root\<close> (lines 112-134): the map starts with a synthetic root
  entry under the tenancy id, then every listed compartment is stored under its id.
\<close>

definition load_compartments_with_root ::
  "string \<Rightarrow> string \<Rightarrow> compartment list \<Rightarrow> (string, compartment) dict" where
  "load_compartments_with_root tenancy_ocid tenancy_name resp =
     (let root = \<lparr>c_id = tenancy_ocid, c_name = tenancy_name,
                  c_compartment_id = None, c_lifecycle_state = ''ACTIVE''\<rparr>
      in fold (\<lambda>c m. AList.update (c_id c) c m) resp [(tenancy_ocid, root)])"

fun instance_list_paths_loop ::
  "string \<Rightarrow> string \<Rightarrow> string \<Rightarrow> (string, compartment) dict \<Rightarrow>
   (string \<times> compartment) list \<Rightarrow> (string, string) dict \<Rightarrow> (string, string) dict" where
  "instance_list_paths_loop tn tid sep comp_map [] paths = paths"
| "instance_list_paths_loop tn tid sep comp_map ((cid, c) # items) paths =
     (if cid = tid
      then instance_list_paths_loop tn tid sep comp_map items (AList.update cid tn paths)
      else instance_list_paths_loop tn tid sep comp_map items
             (AList.update cid (child_path tn tid sep comp_map c) paths))"

definition instance_list_build_compartment_paths ::
  "string \<Rightarrow> (string, compartment) dict \<Rightarrow> string \<Rightarrow> (string, string) dict" where
  "instance_list_build_compartment_paths tenancy_ocid comp_map separator =
     (let tenancy_name = (case map_of comp_map tenancy_ocid of
                            Some root \<Rightarrow> c_name root | None \<Rightarrow> ''root'')
      in instance_list_paths_loop tenancy_name tenancy_ocid separator comp_map comp_map [])"

subsection \<open>dbcs\_list.py and lb\_list.py: the root is skipped\<close>

text \<open>
  \<open>load_compartments_with_parents\<close> (dbcs\_list.py lines 164-181, lb\_list.py lines
  111-128) stores every listed compartment under its id, starting from the empty map.
\<close>

definition load_compartments_with_parents :: "compartment list \<Rightarrow> (string, compartment) dict" where
  "load_compartments_with_parents resp = fold (\<lambda>c m. AList.update (c_id c) c m) resp []"

fun dbcs_list_paths_loop ::
  "string \<Rightarrow> string \<Rightarrow> string \<Rightarrow> (string, compartment) dict \<Rightarrow>
   (string \<times> compartment) list \<Rightarrow> (string, string) dict \<Rightarrow> (string, string) dict" where
  "dbcs_list_paths_loop tn tid sep comp_map [] paths = paths"
| "dbcs_list_paths_loop tn tid sep comp_map ((cid, c) # items) paths =
     (if cid = tid
      then dbcs_list_paths_loop tn tid sep comp_map items paths
      else dbcs_list_paths_loop tn tid sep comp_map items
             (AList.update cid (child_path tn tid sep comp_map c) paths))"

definition dbcs_list_build_compartment_paths ::
  "string \<Rightarrow> string \<Rightarrow> (string, compartment) dict \<Rightarrow> string \<Rightarrow> (string, string) dict" where
  "dbcs_list_build_compartment_paths TENANCY_NAME tenancy_ocid comp_map separator =
     dbcs_list_paths_loop TENANCY_NAME tenancy_ocid separator comp_map comp_map []"

subsection \<open>filesystem\_list.py: one path per call\<close>

text \<open>
  \<open>build_2level_compartment_path\<close> (lines 63-89). The result is \<open>None\<close> for an id that
  is not in the map; a compartment that is the root or has no parent gets the tenancy name
  alone.
\<close>

definition build_2level_compartment_path ::
  "string \<Rightarrow> (string, compartment) dict \<Rightarrow> string \<Rightarrow> string \<Rightarrow> string \<Rightarrow> string option" where
  "build_2level_compartment_path comp_id comp_map tenancy_id tenancy_name sep =
     (case map_of comp_map comp_id of
        None \<Rightarrow> None
      | Some cmp \<Rightarrow>
          (let name = c_name cmp in
           case c_compartment_id cmp of
             None \<Rightarrow> Some tenancy_name
           | Some parent_id \<Rightarrow>
               if comp_id = tenancy_id then Some tenancy_name
               else if parent_id = tenancy_id then Some (tenancy_name @ sep @ name)
               else (case map_of comp_map parent_id of
                       None \<Rightarrow> Some name
                     | Some parent \<Rightarrow> Some (c_name parent @ sep @ name))))"

section \<open>Values, upstream responses and the mirror tables\<close>

text \<open>
  The values the scripts bind to SQL parameters: \<open>None\<close> (SQL \<open>NULL\<close>), strings,
  integers and datetimes (an instant, in seconds).
\<close>

datatype pyval = PNone | PStr string | PInt int | PTime int

text \<open>
  The exceptions the scripts tell apart: \<open>oci.exceptions.ServiceError\<close> with its HTTP
  \<open>status\<close>, and any other exception.
\<close>

datatype py_exception = ServiceError nat | OtherException

text \<open>
  An upstream resource as a script sees it: its \<open>id\<close>, and for each business column of
  the mirror table the value the script derives from the resource's attributes (the
  per-attribute reading, \<open>getattr(x, name, None)\<close> and defaults, is the resource kind's
  field mapping and is kept opaque here).
\<close>

record resource =
  r_id :: string
  r_attrs :: "string \<Rightarrow> pyval"

text \<open>
  A stored row gives a value to every column name; a table with a unique key is a map from
  the key column's value to the row (the surrogate \<open>AUTO_INCREMENT\<close> id of
  \<open>adb_inventory\<close> plays no part in any statement and is left out). The statements
  themselves are taken to succeed: the scripts re-raise every database error, which ends
  the run at that statement. The parameter dictionary of a statement is a Python
  \<open>dict\<close>; \<open>param\<close> reads the value bound to a column.
\<close>

type_synonym sql_row = "string \<Rightarrow> pyval"
type_synonym sql_table = "string \<rightharpoonup> sql_row"

definition param :: "(string, pyval) dict \<Rightarrow> string \<Rightarrow> pyval" where
  "param row c = (case map_of row c of Some v \<Rightarrow> v | None \<Rightarrow> PNone)"

definition opt_str :: "string option \<Rightarrow> pyval" where
  "opt_str x = (case x of None \<Rightarrow> PNone | Some s \<Rightarrow> PStr s)"

definition opt_time :: "int option \<Rightarrow> pyval" where
  "opt_time x = (case x of None \<Rightarrow> PNone | Some t \<Rightarrow> PTime t)"

text \<open>
  \<open>INSERT INTO t (insert_columns) VALUES (...) ON DUPLICATE KEY UPDATE c = VALUES(c), ...\<close>
  for the columns \<open>c\<close> of \<open>update_columns\<close>, on a table whose unique key is
  \<open>key_column\<close>. \<open>k\<close> is the value bound to the key column. A new row takes the bound
  values in the inserted columns (\<open>NULL\<close> elsewhere); an existing row takes them in the
  updated columns only and keeps every other column.
\<close>

record upsert_sql =
  key_column :: string
  insert_columns :: "string list"
  update_columns :: "string list"

definition execute_upsert :: "upsert_sql \<Rightarrow> string \<Rightarrow> sql_row \<Rightarrow> sql_table \<Rightarrow> sql_table" where
  "execute_upsert q k vals tbl =
     (case tbl k of
        None \<Rightarrow> tbl(k \<mapsto> (\<lambda>c. if c \<in> set (insert_columns q) then vals c else PNone))
      | Some old \<Rightarrow> tbl(k \<mapsto> (\<lambda>c. if c \<in> set (update_columns q) then vals c else old c)))"

text \<open>\<open>DELETE FROM t WHERE cond\<close>: every row that satisfies the condition is removed.\<close>

definition execute_delete :: "(string \<Rightarrow> sql_row \<Rightarrow> bool) \<Rightarrow> sql_table \<Rightarrow> sql_table" where
  "execute_delete cond tbl =
     (\<lambda>k. case tbl k of None \<Rightarrow> None | Some r \<Rightarrow> if cond k r then None else Some r)"

text \<open>
  The state of one run of an inventory script: the mirror table, the ids seen so far, the
  compartments whose listing has been called (in call order) and the time slept, in
  milliseconds.
\<close>

record run_state =
  tbl :: sql_table
  seen :: "string set"
  calls :: "string list"
  slept_ms :: nat

text \<open>
  The upstream listing of a resource kind: \<open>api cid n\<close> is what the call for compartment
  \<open>cid\<close> returns when \<open>n\<close> calls for that compartment were made before it in this run
  (\<open>oci.pagination.list_call_get_all_results\<close> either returns every item or raises).
\<close>

type_synonym listing_api = "string \<Rightarrow> nat \<Rightarrow> py_exception + resource list"

section \<open>adb\_list.py\<close>

text \<open>\<open>UPSERT_SQL\<close> (lines 91-125); the unique key is \<open>uk_adb (adb_ocid)\<close>.\<close>

definition adb_list_UPSERT_SQL :: upsert_sql where
  "adb_list_UPSERT_SQL =
     \<lparr>key_column = ''adb_ocid'',
      insert_columns =
        [''tenancy_ocid'', ''region'',
         ''compartment_ocid'', ''compartment_name'', ''compartment_path'',
         ''adb_ocid'', ''display_name'', ''db_name'',
         ''workload'', ''lifecycle'',
         ''compute_type'', ''compute_count'',
         ''storage_gb'', ''auto_scaling'',
         ''time_created_utc'', ''last_refreshed_utc''],
      update_columns =
        [''tenancy_ocid'', ''region'', ''compartment_ocid'', ''compartment_name'',
         ''compartment_path'', ''display_name'', ''db_name'', ''workload'', ''lifecycle'',
         ''compute_type'', ''compute_count'', ''storage_gb'', ''auto_scaling'',
         ''time_created_utc'', ''last_refreshed_utc'']\<rparr>"

text \<open>\<open>upsert_adb_row\<close> (lines 209-249): the row dictionary, the statement, the seen-set.\<close>

definition adb_row ::
  "string \<Rightarrow> string \<Rightarrow> resource \<Rightarrow> compartment \<Rightarrow> string option \<Rightarrow> int \<Rightarrow> (string, pyval) dict" where
  "adb_row tenancy_id region adb cmp comp_path run_ts =
     [(''tenancy_ocid'', PStr tenancy_id),
      (''region'', PStr region),
      (''compartment_ocid'', PStr (c_id cmp)),
      (''compartment_name'', PStr (c_name cmp)),
      (''compartment_path'', opt_str comp_path),
      (''adb_ocid'', PStr (r_id adb)),
      (''display_name'', r_attrs adb ''display_name''),
      (''db_name'', r_attrs adb ''db_name''),
      (''workload'', r_attrs adb ''workload''),
      (''lifecycle'', r_attrs adb ''lifecycle''),
      (''compute_type'', r_attrs adb ''compute_type''),
      (''compute_count'', r_attrs adb ''compute_count''),
      (''storage_gb'', r_attrs adb ''storage_gb''),
      (''auto_scaling'', r_attrs adb ''auto_scaling''),
      (''time_created_utc'', r_attrs adb ''time_created_utc''),
      (''last_refreshed_utc'', PTime run_ts)]"

definition upsert_adb_row ::
  "string \<Rightarrow> string \<Rightarrow> compartment \<Rightarrow> string option \<Rightarrow> int \<Rightarrow> resource \<Rightarrow> run_state \<Rightarrow> run_state" where
  "upsert_adb_row tenancy_id region cmp comp_path run_ts adb st =
     st\<lparr>tbl := execute_upsert adb_list_UPSERT_SQL (r_id adb)
                  (param (adb_row tenancy_id region adb cmp comp_path run_ts)) (tbl st),
        seen := insert (r_id adb) (seen st)\<rparr>"

text \<open>
  The collection loop of \<open>main\<close> (lines 279-311). A listing that raises a
  \<open>ServiceError\<close> with status 429 is logged, the script sleeps three seconds and goes on
  with the next compartment; any other exception leaves \<open>main\<close> (the state reached is
  returned with it). An empty listing goes on with the next compartment.
\<close>

fun adb_list_loop ::
  "string \<Rightarrow> string \<Rightarrow> int \<Rightarrow> (string, string) dict \<Rightarrow> listing_api \<Rightarrow>
   compartment list \<Rightarrow> run_state \<Rightarrow> (py_exception \<times> run_state) + run_state" where
  "adb_list_loop tenancy_id region run_ts comp_paths api [] st = Inr st"
| "adb_list_loop tenancy_id region run_ts comp_paths api (cmp # rest) st =
     (let comp_path = map_of comp_paths (c_id cmp);
          st1 = st\<lparr>calls := calls st @ [c_id cmp]\<rparr>
      in case api (c_id cmp) (count_list (calls st) (c_id cmp)) of
           Inl (ServiceError status) \<Rightarrow>
             if status = 429
             then adb_list_loop tenancy_id region run_ts comp_paths api rest
                    (st1\<lparr>slept_ms := slept_ms st1 + 3000\<rparr>)
             else Inl (ServiceError status, st1)
         | Inl OtherException \<Rightarrow> Inl (OtherException, st1)
         | Inr adbs \<Rightarrow>
             if adbs = []
             then adb_list_loop tenancy_id region run_ts comp_paths api rest st1
             else (let st2 = fold (upsert_adb_row tenancy_id region cmp comp_path run_ts) adbs st1
                   in adb_list_loop tenancy_id region run_ts comp_paths api rest
                        (st2\<lparr>slept_ms := slept_ms st2 + 200\<rparr>)))"

text \<open>The sweep of \<open>main\<close> (lines 314-334).\<close>

definition adb_list_sweep :: "string \<Rightarrow> string \<Rightarrow> string set \<Rightarrow> sql_table \<Rightarrow> sql_table" where
  "adb_list_sweep tenancy_id region seen_adb_ids t =
     (if seen_adb_ids \<noteq> {}
      then execute_delete
             (\<lambda>k r. r ''tenancy_ocid'' = PStr tenancy_id \<and> r ''region'' = PStr region
                     \<and> k \<notin> seen_adb_ids) t
      else execute_delete
             (\<lambda>k r. r ''tenancy_ocid'' = PStr tenancy_id \<and> r ''region'' = PStr region) t)"

text \<open>
  \<open>list_all_compartments\<close> keeps the ACTIVE compartments of the identity listing (lines
  165-176); \<open>main\<close> (lines 254-339) builds the paths, runs the loop from an empty seen-set
  and, when the loop did not raise, sweeps.
\<close>

definition list_all_compartments :: "compartment list \<Rightarrow> compartment list" where
  "list_all_compartments resp = filter (\<lambda>c. c_lifecycle_state c = ''ACTIVE'') resp"

definition adb_list_main ::
  "string \<Rightarrow> string \<Rightarrow> string \<Rightarrow> int \<Rightarrow> compartment list \<Rightarrow> listing_api \<Rightarrow> sql_table \<Rightarrow>
   (py_exception \<times> run_state) + run_state" where
  "adb_list_main TENANCY_NAME tenancy_id region run_ts identity_resp api t =
     (let compartments = list_all_compartments identity_resp;
          comp_paths = adb_list_build_compartment_paths TENANCY_NAME compartments tenancy_id '' > ''
      in case adb_list_loop tenancy_id region run_ts comp_paths api compartments
                \<lparr>tbl = t, seen = {}, calls = [], slept_ms = 0\<rparr> of
           Inl err \<Rightarrow> Inl err
         | Inr st \<Rightarrow> Inr (st\<lparr>tbl := adb_list_sweep tenancy_id region (seen st) (tbl st)\<rparr>))"

section \<open>instance\_list.py\<close>

text \<open>\<open>upsert_instance\<close> (lines 220-252); the primary key is \<open>instance_id\<close>.\<close>

definition instance_list_UPSERT_SQL :: upsert_sql where
  "instance_list_UPSERT_SQL =
     \<lparr>key_column = ''instance_id'',
      insert_columns =
        [''instance_id'', ''tenancy_ocid'', ''region'',
         ''compartment_id'', ''compartment_name'', ''compartment_path'',
         ''display_name'', ''shape'', ''ocpus'', ''memory_gbs'',
         ''lifecycle_state'', ''availability_domain'',
         ''primary_vnic_id'', ''private_ips'', ''public_ips'',
         ''time_created_utc'', ''last_refreshed_utc''],
      update_columns =
        [''compartment_name'', ''compartment_path'', ''display_name'', ''shape'',
         ''ocpus'', ''memory_gbs'', ''lifecycle_state'', ''availability_domain'',
         ''primary_vnic_id'', ''private_ips'', ''public_ips'',
         ''time_created_utc'', ''last_refreshed_utc'']\<rparr>"

text \<open>The row dictionary of \<open>main\<close> (lines 313-332).\<close>

definition instance_row ::
  "string \<Rightarrow> string \<Rightarrow> resource \<Rightarrow> string \<Rightarrow> string \<Rightarrow> string option \<Rightarrow> int \<Rightarrow> (string, pyval) dict" where
  "instance_row tenancy_ocid region inst comp_id comp_name comp_path run_ts =
     [(''instance_id'', PStr (r_id inst)),
      (''tenancy_ocid'', PStr tenancy_ocid),
      (''region'', PStr region),
      (''compartment_id'', PStr comp_id),
      (''compartment_name'', PStr comp_name),
      (''compartment_path'', opt_str comp_path),
      (''display_name'', r_attrs inst ''display_name''),
      (''shape'', r_attrs inst ''shape''),
      (''ocpus'', r_attrs inst ''ocpus''),
      (''memory_gbs'', r_attrs inst ''memory_gbs''),
      (''lifecycle_state'', r_attrs inst ''lifecycle_state''),
      (''availability_domain'', r_attrs inst ''availability_domain''),
      (''primary_vnic_id'', r_attrs inst ''primary_vnic_id''),
      (''private_ips'', r_attrs inst ''private_ips''),
      (''public_ips'', r_attrs inst ''public_ips''),
      (''time_created_utc'', r_attrs inst ''time_created_utc''),
      (''last_refreshed_utc'', PTime run_ts)]"

definition upsert_instance ::
  "string \<Rightarrow> string \<Rightarrow> string \<Rightarrow> string \<Rightarrow> string option \<Rightarrow> int \<Rightarrow> resource \<Rightarrow> run_state \<Rightarrow> run_state" where
  "upsert_instance tenancy_ocid region comp_id comp_name comp_path run_ts inst st =
     st\<lparr>tbl := execute_upsert instance_list_UPSERT_SQL (r_id inst)
                  (param (instance_row tenancy_ocid region inst comp_id comp_name comp_path run_ts))
                  (tbl st),
        seen := insert (r_id inst) (seen st)\<rparr>"

text \<open>
  \<open>list_instances\<close> (lines 171-180) catches every exception, prints a warning and
  returns the empty list.
\<close>

definition list_instances :: "listing_api \<Rightarrow> string \<Rightarrow> nat \<Rightarrow> resource list" where
  "list_instances api compartment_id n =
     (case api compartment_id n of Inr data \<Rightarrow> data | Inl e \<Rightarrow> [])"

text \<open>
  The collection loop of \<open>main\<close> (lines 295-338) over the items of \<open>active_comps\<close>.
  Nothing in it can raise: the handler around \<open>list_instances\<close> (lines 299-303) is never
  entered.
\<close>

fun instance_list_loop ::
  "string \<Rightarrow> string \<Rightarrow> int \<Rightarrow> (string, string) dict \<Rightarrow> listing_api \<Rightarrow>
   (string \<times> compartment) list \<Rightarrow> run_state \<Rightarrow> run_state" where
  "instance_list_loop tenancy_ocid region run_ts comp_paths api [] st = st"
| "instance_list_loop tenancy_ocid region run_ts comp_paths api ((comp_id, cmp) # rest) st =
     (let comp_path = map_of comp_paths comp_id;
          comp_name = c_name cmp;
          instances = list_instances api comp_id (count_list (calls st) comp_id);
          st1 = st\<lparr>calls := calls st @ [comp_id]\<rparr>
      in if instances = []
         then instance_list_loop tenancy_ocid region run_ts comp_paths api rest st1
         else instance_list_loop tenancy_ocid region run_ts comp_paths api rest
                (fold (upsert_instance tenancy_ocid region comp_id comp_name comp_path run_ts)
                   instances st1))"

text \<open>The sweep of \<open>main\<close> (lines 341-361).\<close>

definition instance_list_sweep :: "string \<Rightarrow> string \<Rightarrow> string set \<Rightarrow> sql_table \<Rightarrow> sql_table" where
  "instance_list_sweep tenancy_ocid region seen_instance_ids t =
     (if seen_instance_ids \<noteq> {}
      then execute_delete
             (\<lambda>k r. r ''tenancy_ocid'' = PStr tenancy_ocid \<and> r ''region'' = PStr region
                     \<and> k \<notin> seen_instance_ids) t
      else execute_delete
             (\<lambda>k r. r ''tenancy_ocid'' = PStr tenancy_ocid \<and> r ''region'' = PStr region) t)"

text \<open>\<open>active_comps\<close> (lines 283-286): the ACTIVE compartments of the map, the root left out.\<close>

definition instance_list_active_comps ::
  "string \<Rightarrow> (string, compartment) dict \<Rightarrow> (string, compartment) dict" where
  "instance_list_active_comps tenancy_ocid comp_map =
     filter (\<lambda>(cid, c). cid \<noteq> tenancy_ocid \<and> c_lifecycle_state c = ''ACTIVE'') comp_map"

text \<open>\<open>main\<close> (lines 258-366), after the schema is in place.\<close>

definition instance_list_main ::
  "string \<Rightarrow> string \<Rightarrow> string \<Rightarrow> int \<Rightarrow> compartment list \<Rightarrow> listing_api \<Rightarrow> sql_table \<Rightarrow> run_state" where
  "instance_list_main tenancy_ocid tenancy_name region run_ts identity_resp api t =
     (let comp_map = load_compartments_with_root tenancy_ocid tenancy_name identity_resp;
          comp_paths = instance_list_build_compartment_paths tenancy_ocid comp_map '' > '';
          active_comps = instance_list_active_comps tenancy_ocid comp_map;
          st = instance_list_loop tenancy_ocid region run_ts comp_paths api active_comps
                 \<lparr>tbl = t, seen = {}, calls = [], slept_ms = 0\<rparr>
      in st\<lparr>tbl := instance_list_sweep tenancy_ocid region (seen st) (tbl st)\<rparr>)"

section \<open>adb\_backup.py and dbcs\_backup.py\<close>

text \<open>
  A backup as the two backup scripts read it: its id, \<open>time_started\<close> and \<open>time_ended\<close>
  (an instant or \<open>None\<close>) and the remaining columns' values.
\<close>

record backup =
  b_id :: string
  b_time_started :: "int option"
  b_time_ended :: "int option"
  b_attrs :: "string \<Rightarrow> pyval"

text \<open>The state of a run of a backup script: the table, the seen-set and \<open>total\<close>.\<close>

record backup_state =
  btbl :: sql_table
  bseen :: "string set"
  total :: nat

subsection \<open>adb\_backup.py\<close>

text \<open>\<open>save_backup_to_mysql\<close> (lines 68-94); \<open>created_at\<close> reads the clock at each call.\<close>

definition adb_backup_UPSERT_SQL :: upsert_sql where
  "adb_backup_UPSERT_SQL =
     \<lparr>key_column = ''backup_id'',
      insert_columns =
        [''backup_id'', ''adb_name'', ''adb_status'', ''backup_status'',
         ''time_started'', ''time_ended'', ''created_at''],
      update_columns =
        [''adb_status'', ''backup_status'', ''time_started'', ''time_ended'', ''created_at'']\<rparr>"

definition save_backup_to_mysql ::
  "(nat \<Rightarrow> int) \<Rightarrow> string \<Rightarrow> string \<Rightarrow> backup \<Rightarrow> backup_state \<Rightarrow> backup_state" where
  "save_backup_to_mysql utcnow adb_name adb_status b st =
     st\<lparr>btbl := execute_upsert adb_backup_UPSERT_SQL (b_id b)
                   (param [(''backup_id'', PStr (b_id b)),
                           (''adb_name'', PStr adb_name),
                           (''adb_status'', PStr adb_status),
                           (''backup_status'', b_attrs b ''lifecycle_state''),
                           (''time_started'', opt_time (b_time_started b)),
                           (''time_ended'', opt_time (b_time_ended b)),
                           (''created_at'', PTime (utcnow (total st)))])
                   (btbl st)\<rparr>"

text \<open>The body of the loop over a database's backups (lines 164-167).\<close>

definition adb_backup_step ::
  "(nat \<Rightarrow> int) \<Rightarrow> string \<Rightarrow> string \<Rightarrow> backup \<Rightarrow> backup_state \<Rightarrow> backup_state" where
  "adb_backup_step utcnow adb_name adb_status b st =
     (save_backup_to_mysql utcnow adb_name adb_status b st)
       \<lparr>bseen := insert (b_id b) (bseen st), total := total st + 1\<rparr>"

text \<open>
  The collection loop (lines 148-172). \<open>get_adb_info\<close> gives the state and the name of a
  database, \<open>get_all_backups\<close> its backups; when either raises, the error is logged and the
  loop goes on with the next database. \<open>utcnow n\<close> is the clock when \<open>n\<close> backups have been
  saved.
\<close>

fun adb_backup_loop ::
  "(string \<Rightarrow> py_exception + string \<times> string) \<Rightarrow> (string \<Rightarrow> py_exception + backup list) \<Rightarrow>
   (nat \<Rightarrow> int) \<Rightarrow> string list \<Rightarrow> backup_state \<Rightarrow> backup_state" where
  "adb_backup_loop get_adb_info get_all_backups utcnow [] st = st"
| "adb_backup_loop get_adb_info get_all_backups utcnow (adb_id # rest) st =
     (case get_adb_info adb_id of
        Inl e \<Rightarrow> adb_backup_loop get_adb_info get_all_backups utcnow rest st
      | Inr (adb_status, adb_name) \<Rightarrow>
          (case get_all_backups adb_id of
             Inl e \<Rightarrow> adb_backup_loop get_adb_info get_all_backups utcnow rest st
           | Inr backups \<Rightarrow>
               adb_backup_loop get_adb_info get_all_backups utcnow rest
                 (fold (adb_backup_step utcnow adb_name adb_status) backups st)))"

text \<open>The sweep (lines 181-191): with an empty seen-set the delete is skipped.\<close>

definition adb_backup_sweep :: "string set \<Rightarrow> sql_table \<Rightarrow> sql_table" where
  "adb_backup_sweep seen_backup_ids t =
     (if seen_backup_ids \<noteq> {}
      then execute_delete (\<lambda>k r. k \<notin> seen_backup_ids) t
      else t)"

text \<open>The script body (lines 110-198): with no configured database it exits at once.\<close>

definition adb_backup_main ::
  "string list \<Rightarrow> (string \<Rightarrow> py_exception + string \<times> string) \<Rightarrow>
   (string \<Rightarrow> py_exception + backup list) \<Rightarrow> (nat \<Rightarrow> int) \<Rightarrow> sql_table \<Rightarrow> backup_state" where
  "adb_backup_main ADB_OCIDS get_adb_info get_all_backups utcnow t =
     (if ADB_OCIDS = [] then \<lparr>btbl = t, bseen = {}, total = 0\<rparr>
      else (let st = adb_backup_loop get_adb_info get_all_backups utcnow ADB_OCIDS
                       \<lparr>btbl = t, bseen = {}, total = 0\<rparr>
            in st\<lparr>btbl := adb_backup_sweep (bseen st) (btbl st)\<rparr>))"

subsection \<open>dbcs\_backup.py\<close>

definition LOOKBACK_DAYS :: int where
  "LOOKBACK_DAYS = 14"

text \<open>\<open>upsert_backup\<close> (lines 114-138); the primary key is \<open>id\<close>.\<close>

definition dbcs_backup_UPSERT_SQL :: upsert_sql where
  "dbcs_backup_UPSERT_SQL =
     \<lparr>key_column = ''id'',
      insert_columns =
        [''id'', ''db_name'', ''type'', ''time_started'', ''time_ended'',
         ''lifecycle_state'', ''size_bytes'', ''display_name'', ''freeform_tags''],
      update_columns =
        [''db_name'', ''type'', ''time_started'', ''time_ended'',
         ''lifecycle_state'', ''size_bytes'', ''display_name'', ''freeform_tags'']\<rparr>"

text \<open>
  The body of the loop over one page (lines 206-235): a backup whose \<open>time_started\<close> is
  set and earlier than \<open>lookback_ts\<close> is skipped; every other backup is upserted and its id
  joins the seen-set.
\<close>

definition dbcs_backup_step :: "int \<Rightarrow> string \<Rightarrow> backup \<Rightarrow> backup_state \<Rightarrow> backup_state" where
  "dbcs_backup_step lookback_ts db_name b st =
     (if (case b_time_started b of Some ts \<Rightarrow> ts < lookback_ts | None \<Rightarrow> False) then st
      else st\<lparr>btbl := execute_upsert dbcs_backup_UPSERT_SQL (b_id b)
                         (param [(''id'', PStr (b_id b)),
                                 (''db_name'', PStr db_name),
                                 (''type'', b_attrs b ''type''),
                                 (''time_started'', opt_time (b_time_started b)),
                                 (''time_ended'', opt_time (b_time_ended b)),
                                 (''lifecycle_state'', b_attrs b ''lifecycle_state''),
                                 (''size_bytes'', b_attrs b ''size_bytes''),
                                 (''display_name'', b_attrs b ''display_name''),
                                 (''freeform_tags'', b_attrs b ''freeform_tags'')])
                         (btbl st),
              bseen := insert (b_id b) (bseen st),
              total := total st + 1\<rparr>)"

text \<open>
  The \<open>while True\<close> loop over the pages of one database (lines 192-239).
  \<open>list_backups db page\<close> is the answer to the call with that page token: an exception, or
  the page's backups with the \<open>opc-next-page\<close> header. An exception leaves \<open>main\<close>; a
  missing or empty header ends the loop. The loop runs as long as the service keeps
  returning a token, so the model counts the pages it may still fetch: \<open>None\<close> is a loop
  that has not ended within that count.
\<close>

type_synonym backups_api = "string \<Rightarrow> string option \<Rightarrow> py_exception + backup list \<times> string option"

fun dbcs_backup_pages ::
  "nat \<Rightarrow> backups_api \<Rightarrow> int \<Rightarrow> string \<Rightarrow> string \<Rightarrow> string option \<Rightarrow> backup_state \<Rightarrow>
   ((py_exception \<times> backup_state) + backup_state) option" where
  "dbcs_backup_pages 0 list_backups lookback_ts db_ocid db_name next_page st = None"
| "dbcs_backup_pages (Suc n) list_backups lookback_ts db_ocid db_name next_page st =
     (case list_backups db_ocid next_page of
        Inl e \<Rightarrow> Some (Inl (e, st))
      | Inr (backups, next_token) \<Rightarrow>
          (let st' = fold (dbcs_backup_step lookback_ts db_name) backups st
           in case next_token of
                None \<Rightarrow> Some (Inr st')
              | Some tok \<Rightarrow>
                  if tok = [] then Some (Inr st')
                  else dbcs_backup_pages n list_backups lookback_ts db_ocid db_name (Some tok) st'))"

text \<open>
  The name under which a database's backups are stored (lines 185-190):
  \<open>db_name or db_unique_name or display_name or db_ocid\<close>, and the OCID when
  \<open>get_database\<close> raises.
\<close>

definition py_or :: "string option \<Rightarrow> string \<Rightarrow> string" where
  "py_or a b = (case a of None \<Rightarrow> b | Some s \<Rightarrow> if s = [] then b else s)"

definition dbcs_db_name ::
  "(string \<Rightarrow> py_exception + string option \<times> string option \<times> string option) \<Rightarrow> string \<Rightarrow> string" where
  "dbcs_db_name get_database db_ocid =
     (case get_database db_ocid of
        Inl e \<Rightarrow> db_ocid
      | Inr (db_name, db_unique_name, display_name) \<Rightarrow>
          py_or db_name (py_or db_unique_name (py_or display_name db_ocid)))"

fun dbcs_backup_loop ::
  "nat \<Rightarrow> (string \<Rightarrow> py_exception + string option \<times> string option \<times> string option) \<Rightarrow>
   backups_api \<Rightarrow> int \<Rightarrow> string list \<Rightarrow> backup_state \<Rightarrow>
   ((py_exception \<times> backup_state) + backup_state) option" where
  "dbcs_backup_loop n get_database list_backups lookback_ts [] st = Some (Inr st)"
| "dbcs_backup_loop n get_database list_backups lookback_ts (db_ocid # rest) st =
     (case dbcs_backup_pages n list_backups lookback_ts db_ocid
             (dbcs_db_name get_database db_ocid) None st of
        None \<Rightarrow> None
      | Some (Inl err) \<Rightarrow> Some (Inl err)
      | Some (Inr st') \<Rightarrow> dbcs_backup_loop n get_database list_backups lookback_ts rest st')"

text \<open>The sweep (lines 247-257): with an empty seen-set the delete is skipped.\<close>

definition dbcs_backup_sweep :: "string set \<Rightarrow> sql_table \<Rightarrow> sql_table" where
  "dbcs_backup_sweep seen_ids t =
     (if seen_ids \<noteq> {}
      then execute_delete (\<lambda>k r. k \<notin> seen_ids) t
      else t)"

text \<open>
  The script (lines 45-48 and \<open>main\<close>, lines 143-264): with no configured database it
  exits before \<open>main\<close>; \<open>now\<close> is the clock read at line 177.
\<close>

definition dbcs_backup_main ::
  "nat \<Rightarrow> string list \<Rightarrow> (string \<Rightarrow> py_exception + string option \<times> string option \<times> string option) \<Rightarrow>
   backups_api \<Rightarrow> int \<Rightarrow> sql_table \<Rightarrow> ((py_exception \<times> backup_state) + backup_state) option" where
  "dbcs_backup_main n DB_OCIDS get_database list_backups now t =
     (if DB_OCIDS = [] then Some (Inr \<lparr>btbl = t, bseen = {}, total = 0\<rparr>)
      else (let lookback_ts = now - LOOKBACK_DAYS * 86400
            in case dbcs_backup_loop n get_database list_backups lookback_ts DB_OCIDS
                      \<lparr>btbl = t, bseen = {}, total = 0\<rparr> of
                 None \<Rightarrow> None
               | Some (Inl err) \<Rightarrow> Some (Inl err)
               | Some (Inr st) \<Rightarrow>
                   Some (Inr (st\<lparr>btbl := dbcs_backup_sweep (bseen st) (btbl st)\<rparr>))))"

section \<open>dbcs\_list.py\<close>

text \<open>\<open>UPSERT_SQL\<close> (lines 92-123); the primary key is \<open>dbsystem_id\<close>.\<close>

definition dbcs_list_UPSERT_SQL :: upsert_sql where
  "dbcs_list_UPSERT_SQL =
     \<lparr>key_column = ''dbsystem_id'',
      insert_columns =
        [''dbsystem_id'', ''tenancy_ocid'', ''region'',
         ''compartment_ocid'', ''compartment_name'', ''compartment_path'',
         ''display_name'', ''db_home_count'', ''db_name_list'',
         ''lifecycle_state'', ''shape'', ''cpu_core_count'', ''storage_size_gb'',
         ''node_count'', ''license_model'',
         ''time_created_utc'', ''last_refreshed_utc''],
      update_columns =
        [''compartment_name'', ''compartment_path'', ''display_name'', ''db_home_count'',
         ''db_name_list'', ''lifecycle_state'', ''shape'', ''cpu_core_count'',
         ''storage_size_gb'', ''node_count'', ''license_model'',
         ''time_created_utc'', ''last_refreshed_utc'']\<rparr>"

text \<open>\<open>",".join(db_names)\<close>.\<close>

fun join_comma :: "string list \<Rightarrow> string" where
  "join_comma [] = []"
| "join_comma [x] = x"
| "join_comma (x # y # ys) = x @ '','' @ join_comma (y # ys)"

text \<open>
  \<open>upsert_dbcs\<close> (lines 225-268). For each DB system the database names are read through
  \<open>list_db_homes\<close> and \<open>list_databases\<close>: \<open>db_names_of\<close> gives the names, or the
  exception the first failing call raises, which leaves \<open>upsert_dbcs\<close> with the systems
  before it already stored.
\<close>

fun upsert_dbcs ::
  "string \<Rightarrow> string \<Rightarrow> (string \<Rightarrow> py_exception + string list) \<Rightarrow>
   string \<Rightarrow> string \<Rightarrow> string option \<Rightarrow> int \<Rightarrow> resource list \<Rightarrow> run_state \<Rightarrow>
   (py_exception \<times> run_state) + run_state" where
  "upsert_dbcs tenancy_ocid region db_names_of comp_name comp_id comp_path run_ts [] st = Inr st"
| "upsert_dbcs tenancy_ocid region db_names_of comp_name comp_id comp_path run_ts (dbs_item # rest) st =
     (case db_names_of (r_id dbs_item) of
        Inl e \<Rightarrow> Inl (e, st)
      | Inr db_names \<Rightarrow>
          upsert_dbcs tenancy_ocid region db_names_of comp_name comp_id comp_path run_ts rest
            (st\<lparr>tbl := execute_upsert dbcs_list_UPSERT_SQL (r_id dbs_item)
                  (param [(''dbsystem_id'', PStr (r_id dbs_item)),
                          (''tenancy_ocid'', PStr tenancy_ocid),
                          (''region'', PStr region),
                          (''compartment_ocid'', PStr comp_id),
                          (''compartment_name'', PStr comp_name),
                          (''compartment_path'', opt_str comp_path),
                          (''display_name'', r_attrs dbs_item ''display_name''),
                          (''db_home_count'', PInt (int (length db_names))),
                          (''db_name_list'',
                             if db_names \<noteq> [] then PStr (join_comma db_names) else PNone),
                          (''lifecycle_state'', r_attrs dbs_item ''lifecycle_state''),
                          (''shape'', r_attrs dbs_item ''shape''),
                          (''cpu_core_count'', r_attrs dbs_item ''cpu_core_count''),
                          (''storage_size_gb'', r_attrs dbs_item ''storage_size_gb''),
                          (''node_count'', r_attrs dbs_item ''node_count''),
                          (''license_model'', r_attrs dbs_item ''license_model''),
                          (''time_created_utc'', r_attrs dbs_item ''time_created_utc''),
                          (''last_refreshed_utc'', PTime run_ts)])
                  (tbl st),
                seen := insert (r_id dbs_item) (seen st)\<rparr>))"

text \<open>
  The collection loop of \<open>main\<close> (lines 303-337). A \<open>ServiceError\<close> with status 429,
  from the listing or from \<open>upsert_dbcs\<close>, is logged, the script sleeps three seconds and
  goes on with the next compartment; any other exception leaves \<open>main\<close>.
\<close>

fun dbcs_list_loop ::
  "string \<Rightarrow> string \<Rightarrow> int \<Rightarrow> (string, string) dict \<Rightarrow> listing_api \<Rightarrow>
   (string \<Rightarrow> py_exception + string list) \<Rightarrow>
   compartment list \<Rightarrow> run_state \<Rightarrow> (py_exception \<times> run_state) + run_state" where
  "dbcs_list_loop tenancy_ocid region run_ts comp_paths api db_names_of [] st = Inr st"
| "dbcs_list_loop tenancy_ocid region run_ts comp_paths api db_names_of (cmp # rest) st =
     (let comp_id = c_id cmp;
          comp_name = c_name cmp;
          comp_path = map_of comp_paths comp_id;
          st1 = st\<lparr>calls := calls st @ [comp_id]\<rparr>
      in case api comp_id (count_list (calls st) comp_id) of
           Inl (ServiceError status) \<Rightarrow>
             if status = 429
             then dbcs_list_loop tenancy_ocid region run_ts comp_paths api db_names_of rest
                    (st1\<lparr>slept_ms := slept_ms st1 + 3000\<rparr>)
             else Inl (ServiceError status, st1)
         | Inl OtherException \<Rightarrow> Inl (OtherException, st1)
         | Inr dbs_list \<Rightarrow>
             if dbs_list = []
             then dbcs_list_loop tenancy_ocid region run_ts comp_paths api db_names_of rest st1
             else (case upsert_dbcs tenancy_ocid region db_names_of comp_name comp_id comp_path
                          run_ts dbs_list st1 of
                     Inl (ServiceError status, st2) \<Rightarrow>
                       if status = 429
                       then dbcs_list_loop tenancy_ocid region run_ts comp_paths api db_names_of
                              rest (st2\<lparr>slept_ms := slept_ms st2 + 3000\<rparr>)
                       else Inl (ServiceError status, st2)
                   | Inl (OtherException, st2) \<Rightarrow> Inl (OtherException, st2)
                   | Inr st2 \<Rightarrow>
                       dbcs_list_loop tenancy_ocid region run_ts comp_paths api db_names_of
                         rest st2))"

text \<open>The sweep (lines 340-360) and \<open>main\<close> (lines 273-365).\<close>

definition dbcs_list_sweep :: "string \<Rightarrow> string \<Rightarrow> string set \<Rightarrow> sql_table \<Rightarrow> sql_table" where
  "dbcs_list_sweep tenancy_ocid region seen_dbsystem_ids t =
     (if seen_dbsystem_ids \<noteq> {}
      then execute_delete
             (\<lambda>k r. r ''tenancy_ocid'' = PStr tenancy_ocid \<and> r ''region'' = PStr region
                     \<and> k \<notin> seen_dbsystem_ids) t
      else execute_delete
             (\<lambda>k r. r ''tenancy_ocid'' = PStr tenancy_ocid \<and> r ''region'' = PStr region) t)"

definition dbcs_list_main ::
  "string \<Rightarrow> string \<Rightarrow> string \<Rightarrow> int \<Rightarrow> compartment list \<Rightarrow> listing_api \<Rightarrow>
   (string \<Rightarrow> py_exception + string list) \<Rightarrow> sql_table \<Rightarrow>
   (py_exception \<times> run_state) + run_state" where
  "dbcs_list_main TENANCY_NAME tenancy_ocid region run_ts identity_resp api db_names_of t =
     (let comp_map = load_compartments_with_parents identity_resp;
          comp_paths = dbcs_list_build_compartment_paths TENANCY_NAME tenancy_ocid comp_map '' > '';
          compartments = map snd
            (filter (\<lambda>(cid, c). cid \<noteq> tenancy_ocid \<and> c_lifecycle_state c = ''ACTIVE'') comp_map)
      in case dbcs_list_loop tenancy_ocid region run_ts comp_paths api db_names_of compartments
                \<lparr>tbl = t, seen = {}, calls = [], slept_ms = 0\<rparr> of
           Inl err \<Rightarrow> Inl err
         | Inr st \<Rightarrow> Inr (st\<lparr>tbl := dbcs_list_sweep tenancy_ocid region (seen st) (tbl st)\<rparr>))"

section \<open>The retry policy of the specification\<close>



section \<open>filesystem\_list.py: the sweeps\<close>

text \<open>
  The four sweeps at the end of the script (lines 508-561), one per table. None of the
  tables has a tenancy or region column; a delete with an empty seen-set has no
  \<open>WHERE\<close> clause.
\<close>

definition filesystem_sweep :: "string set \<Rightarrow> sql_table \<Rightarrow> sql_table" where
  "filesystem_sweep seen_ids t =
     (if seen_ids \<noteq> {}
      then execute_delete (\<lambda>k r. k \<notin> seen_ids) t
      else execute_delete (\<lambda>k r. True) t)"

section \<open>filesystem\_list.py: the collection loop\<close>

text \<open>The four statements (lines 189-258), with positional parameters in column order.\<close>

definition UPSERT_FS_SQL :: upsert_sql where
  "UPSERT_FS_SQL =
     \<lparr>key_column = ''fs_id'',
      insert_columns =
        [''fs_id'', ''display_name'', ''compartment_id'', ''compartment_name'',
         ''compartment_path'', ''availability_domain'', ''lifecycle_state'', ''time_created'',
         ''metered_bytes'', ''latest_snapshot_id'', ''latest_snapshot_name'',
         ''latest_snapshot_state'', ''latest_snapshot_time'', ''last_seen_at''],
      update_columns =
        [''display_name'', ''compartment_id'', ''compartment_name'',
         ''compartment_path'', ''availability_domain'', ''lifecycle_state'', ''time_created'',
         ''metered_bytes'', ''latest_snapshot_id'', ''latest_snapshot_name'',
         ''latest_snapshot_state'', ''latest_snapshot_time'', ''last_seen_at'']\<rparr>"

definition UPSERT_SNAP_SQL :: upsert_sql where
  "UPSERT_SNAP_SQL =
     \<lparr>key_column = ''snapshot_id'',
      insert_columns =
        [''snapshot_id'', ''fs_id'', ''name'', ''lifecycle_state'', ''time_created'',
         ''time_ended'', ''last_seen_at''],
      update_columns =
        [''name'', ''lifecycle_state'', ''time_created'', ''time_ended'', ''last_seen_at'']\<rparr>"

definition UPSERT_MT_SQL :: upsert_sql where
  "UPSERT_MT_SQL =
     \<lparr>key_column = ''mt_id'',
      insert_columns =
        [''mt_id'', ''display_name'', ''compartment_id'', ''compartment_path'',
         ''availability_domain'', ''lifecycle_state'', ''time_created'',
         ''subnet_id'', ''export_set_id'', ''last_seen_at''],
      update_columns =
        [''display_name'', ''compartment_id'', ''compartment_path'',
         ''availability_domain'', ''lifecycle_state'', ''time_created'',
         ''subnet_id'', ''export_set_id'', ''last_seen_at'']\<rparr>"

definition UPSERT_EXPORT_SQL :: upsert_sql where
  "UPSERT_EXPORT_SQL =
     \<lparr>key_column = ''export_id'',
      insert_columns =
        [''export_id'', ''fs_id'', ''mt_id'', ''path'', ''lifecycle_state'', ''time_created'',
         ''last_seen_at''],
      update_columns =
        [''fs_id'', ''mt_id'', ''path'', ''lifecycle_state'', ''time_created'', ''last_seen_at'']\<rparr>"

text \<open>
  The upstream objects that are more than an id and column values: a snapshot has the
  \<open>time_created\<close> by which the latest one is chosen, a mount target its
  \<open>export_set_id\<close>.
\<close>

record snapshot =
  s_id :: string
  s_time_created :: int
  s_attrs :: "string \<Rightarrow> pyval"

record mount_target =
  m_id :: string
  m_export_set_id :: "string option"
  m_attrs :: "string \<Rightarrow> pyval"

text \<open>The four tables, the four seen-sets and the time slept.\<close>

record fs_state =
  fs_tbl :: sql_table
  snap_tbl :: sql_table
  mt_tbl :: sql_table
  ex_tbl :: sql_table
  seen_fs_ids :: "string set"
  seen_snapshot_ids :: "string set"
  seen_mt_ids :: "string set"
  seen_export_ids :: "string set"
  fs_slept_ms :: nat

text \<open>The four listings of the file storage service, each an exception or the items.\<close>

record fs_apis =
  list_file_systems :: "string \<Rightarrow> string \<Rightarrow> py_exception + resource list"
  list_mount_targets :: "string \<Rightarrow> string \<Rightarrow> py_exception + mount_target list"
  list_snapshots :: "string \<Rightarrow> py_exception + snapshot list"
  list_exports :: "string \<Rightarrow> string \<Rightarrow> py_exception + resource list"

text \<open>\<open>max(snaps, key=lambda s: s.time_created) if snaps else None\<close>: the first latest one.\<close>

fun latest_snapshot :: "snapshot list \<Rightarrow> snapshot option" where
  "latest_snapshot [] = None"
| "latest_snapshot (s # rest) =
     (case latest_snapshot rest of
        None \<Rightarrow> Some s
      | Some m \<Rightarrow> if s_time_created m > s_time_created s then Some m else Some s)"

text \<open>
  The snapshot fetch of one file system (lines 381-404): status 404 is logged and gives no
  snapshots; status 429 is logged, followed by a sleep of three seconds, and gives no
  snapshots; any other exception leaves the script. The result is the snapshots and the
  time slept.
\<close>

definition fetch_snapshots :: "fs_apis \<Rightarrow> string \<Rightarrow> py_exception + snapshot list \<times> nat" where
  "fetch_snapshots apis fs_id =
     (case list_snapshots apis fs_id of
        Inr snaps \<Rightarrow> Inr (snaps, 0)
      | Inl (ServiceError status) \<Rightarrow>
          if status = 404 then Inr ([], 0)
          else if status = 429 then Inr ([], 3000)
          else Inl (ServiceError status)
      | Inl OtherException \<Rightarrow> Inl OtherException)"

definition upsert_snapshot :: "string \<Rightarrow> int \<Rightarrow> snapshot \<Rightarrow> fs_state \<Rightarrow> fs_state" where
  "upsert_snapshot fs_id run_ts s st =
     st\<lparr>snap_tbl := execute_upsert UPSERT_SNAP_SQL (s_id s)
                       (param [(''snapshot_id'', PStr (s_id s)),
                               (''fs_id'', PStr fs_id),
                               (''name'', s_attrs s ''name''),
                               (''lifecycle_state'', s_attrs s ''lifecycle_state''),
                               (''time_created'', PTime (s_time_created s)),
                               (''time_ended'', s_attrs s ''time_ended''),
                               (''last_seen_at'', PTime run_ts)])
                       (snap_tbl st),
        seen_snapshot_ids := insert (s_id s) (seen_snapshot_ids st)\<rparr>"

text \<open>The loop over the file systems of one compartment and availability domain (lines 379-444).\<close>

fun filesystem_fs_loop ::
  "fs_apis \<Rightarrow> int \<Rightarrow> compartment \<Rightarrow> string option \<Rightarrow> resource list \<Rightarrow> fs_state \<Rightarrow>
   (py_exception \<times> fs_state) + fs_state" where
  "filesystem_fs_loop apis run_ts cmp comp_path [] st = Inr st"
| "filesystem_fs_loop apis run_ts cmp comp_path (fs # rest) st =
     (case fetch_snapshots apis (r_id fs) of
        Inl e \<Rightarrow> Inl (e, st)
      | Inr (snaps, slept) \<Rightarrow>
          (let latest = latest_snapshot snaps;
               st1 = st\<lparr>fs_slept_ms := fs_slept_ms st + slept\<rparr>;
               st2 = st1\<lparr>fs_tbl := execute_upsert UPSERT_FS_SQL (r_id fs)
                         (param [(''fs_id'', PStr (r_id fs)),
                                 (''display_name'', r_attrs fs ''display_name''),
                                 (''compartment_id'', r_attrs fs ''compartment_id''),
                                 (''compartment_name'', PStr (c_name cmp)),
                                 (''compartment_path'', opt_str comp_path),
                                 (''availability_domain'', r_attrs fs ''availability_domain''),
                                 (''lifecycle_state'', r_attrs fs ''lifecycle_state''),
                                 (''time_created'', r_attrs fs ''time_created''),
                                 (''metered_bytes'', r_attrs fs ''metered_bytes''),
                                 (''latest_snapshot_id'',
                                    case latest of Some l \<Rightarrow> PStr (s_id l) | None \<Rightarrow> PNone),
                                 (''latest_snapshot_name'',
                                    case latest of Some l \<Rightarrow> s_attrs l ''name'' | None \<Rightarrow> PNone),
                                 (''latest_snapshot_state'',
                                    case latest of Some l \<Rightarrow> s_attrs l ''lifecycle_state''
                                    | None \<Rightarrow> PNone),
                                 (''latest_snapshot_time'',
                                    case latest of Some l \<Rightarrow> PTime (s_time_created l)
                                    | None \<Rightarrow> PNone),
                                 (''last_seen_at'', PTime run_ts)])
                         (fs_tbl st1),
                       seen_fs_ids := insert (r_id fs) (seen_fs_ids st1)\<rparr>
           in filesystem_fs_loop apis run_ts cmp comp_path rest
                (fold (upsert_snapshot (r_id fs) run_ts) snaps st2)))"

definition upsert_export :: "string \<Rightarrow> int \<Rightarrow> resource \<Rightarrow> fs_state \<Rightarrow> fs_state" where
  "upsert_export mt_id run_ts ex st =
     st\<lparr>ex_tbl := execute_upsert UPSERT_EXPORT_SQL (r_id ex)
                     (param [(''export_id'', PStr (r_id ex)),
                             (''fs_id'', r_attrs ex ''file_system_id''),
                             (''mt_id'', PStr mt_id),
                             (''path'', r_attrs ex ''path''),
                             (''lifecycle_state'', r_attrs ex ''lifecycle_state''),
                             (''time_created'', r_attrs ex ''time_created''),
                             (''last_seen_at'', PTime run_ts)])
                     (ex_tbl st),
        seen_export_ids := insert (r_id ex) (seen_export_ids st)\<rparr>"

text \<open>
  The loop over the mount targets (lines 447-499). The export fetch handles status 429
  (sleep, next mount target) and re-raises every other \<open>ServiceError\<close>, status 404
  included.
\<close>

fun filesystem_mt_loop ::
  "fs_apis \<Rightarrow> int \<Rightarrow> compartment \<Rightarrow> string option \<Rightarrow> mount_target list \<Rightarrow> fs_state \<Rightarrow>
   (py_exception \<times> fs_state) + fs_state" where
  "filesystem_mt_loop apis run_ts cmp comp_path [] st = Inr st"
| "filesystem_mt_loop apis run_ts cmp comp_path (mt # rest) st =
     (let st1 = st\<lparr>mt_tbl := execute_upsert UPSERT_MT_SQL (m_id mt)
                       (param [(''mt_id'', PStr (m_id mt)),
                               (''display_name'', m_attrs mt ''display_name''),
                               (''compartment_id'', m_attrs mt ''compartment_id''),
                               (''compartment_path'', opt_str comp_path),
                               (''availability_domain'', m_attrs mt ''availability_domain''),
                               (''lifecycle_state'', m_attrs mt ''lifecycle_state''),
                               (''time_created'', m_attrs mt ''time_created''),
                               (''subnet_id'', m_attrs mt ''subnet_id''),
                               (''export_set_id'', opt_str (m_export_set_id mt)),
                               (''last_seen_at'', PTime run_ts)])
                       (mt_tbl st),
                     seen_mt_ids := insert (m_id mt) (seen_mt_ids st)\<rparr>
      in case (case m_export_set_id mt of
                 None \<Rightarrow> Inr []
               | Some es \<Rightarrow> if es = [] then Inr [] else list_exports apis (c_id cmp) es) of
           Inl (ServiceError status) \<Rightarrow>
             if status = 429
             then filesystem_mt_loop apis run_ts cmp comp_path rest
                    (st1\<lparr>fs_slept_ms := fs_slept_ms st1 + 3000\<rparr>)
             else Inl (ServiceError status, st1)
         | Inl OtherException \<Rightarrow> Inl (OtherException, st1)
         | Inr ex_list \<Rightarrow>
             filesystem_mt_loop apis run_ts cmp comp_path rest
               (fold (upsert_export (m_id mt) run_ts) ex_list st1))"

text \<open>
  The loop over the availability domains of one compartment (lines 342-500): a throttled
  listing sleeps and goes on with the next domain, any other exception leaves the script.
\<close>

fun filesystem_ad_loop ::
  "fs_apis \<Rightarrow> int \<Rightarrow> compartment \<Rightarrow> string option \<Rightarrow> string list \<Rightarrow> fs_state \<Rightarrow>
   (py_exception \<times> fs_state) + fs_state" where
  "filesystem_ad_loop apis run_ts cmp comp_path [] st = Inr st"
| "filesystem_ad_loop apis run_ts cmp comp_path (ad # rest) st =
     (case list_file_systems apis ad (c_id cmp) of
        Inl (ServiceError status) \<Rightarrow>
          if status = 429
          then filesystem_ad_loop apis run_ts cmp comp_path rest
                 (st\<lparr>fs_slept_ms := fs_slept_ms st + 3000\<rparr>)
          else Inl (ServiceError status, st)
      | Inl OtherException \<Rightarrow> Inl (OtherException, st)
      | Inr fs_list \<Rightarrow>
          (case list_mount_targets apis ad (c_id cmp) of
             Inl (ServiceError status) \<Rightarrow>
               if status = 429
               then filesystem_ad_loop apis run_ts cmp comp_path rest
                      (st\<lparr>fs_slept_ms := fs_slept_ms st + 3000\<rparr>)
               else Inl (ServiceError status, st)
           | Inl OtherException \<Rightarrow> Inl (OtherException, st)
           | Inr mt_list \<Rightarrow>
               if fs_list = [] \<and> mt_list = []
               then filesystem_ad_loop apis run_ts cmp comp_path rest st
               else (case filesystem_fs_loop apis run_ts cmp comp_path fs_list st of
                       Inl err \<Rightarrow> Inl err
                     | Inr st1 \<Rightarrow>
                         (case filesystem_mt_loop apis run_ts cmp comp_path mt_list st1 of
                            Inl err \<Rightarrow> Inl err
                          | Inr st2 \<Rightarrow>
                              filesystem_ad_loop apis run_ts cmp comp_path rest
                                (st2\<lparr>fs_slept_ms := fs_slept_ms st2 + 200\<rparr>)))))"

text \<open>The loop over the compartments (lines 330-500), each with its two-level path.\<close>

fun filesystem_comp_loop ::
  "fs_apis \<Rightarrow> int \<Rightarrow> string \<Rightarrow> string \<Rightarrow> (string, compartment) dict \<Rightarrow> string list \<Rightarrow>
   compartment list \<Rightarrow> fs_state \<Rightarrow> (py_exception \<times> fs_state) + fs_state" where
  "filesystem_comp_loop apis run_ts tenancy_id TENANCY_NAME comp_by_id ads [] st = Inr st"
| "filesystem_comp_loop apis run_ts tenancy_id TENANCY_NAME comp_by_id ads (cmp # rest) st =
     (let comp_path = build_2level_compartment_path (c_id cmp) comp_by_id tenancy_id
                        TENANCY_NAME '' > ''
      in case filesystem_ad_loop apis run_ts cmp comp_path ads st of
           Inl err \<Rightarrow> Inl err
         | Inr st1 \<Rightarrow>
             filesystem_comp_loop apis run_ts tenancy_id TENANCY_NAME comp_by_id ads rest st1)"

text \<open>
  The script from the compartment listing on (lines 288-568): the loop from empty
  seen-sets, then, when the loop did not raise, the four sweeps.
\<close>

definition filesystem_list_main ::
  "fs_apis \<Rightarrow> int \<Rightarrow> string \<Rightarrow> string \<Rightarrow> compartment list \<Rightarrow> string list \<Rightarrow>
   sql_table \<Rightarrow> sql_table \<Rightarrow> sql_table \<Rightarrow> sql_table \<Rightarrow> (py_exception \<times> fs_state) + fs_state" where
  "filesystem_list_main apis run_ts tenancy_id TENANCY_NAME identity_resp ads t_fs t_snap t_mt t_ex =
     (let compartments = list_all_compartments identity_resp;
          comp_by_id = dict_of_compartments compartments
      in case filesystem_comp_loop apis run_ts tenancy_id TENANCY_NAME comp_by_id ads compartments
                \<lparr>fs_tbl = t_fs, snap_tbl = t_snap, mt_tbl = t_mt, ex_tbl = t_ex,
                 seen_fs_ids = {}, seen_snapshot_ids = {}, seen_mt_ids = {},
                 seen_export_ids = {}, fs_slept_ms = 0\<rparr> of
           Inl err \<Rightarrow> Inl err
         | Inr st \<Rightarrow>
             Inr (st\<lparr>fs_tbl := filesystem_sweep (seen_fs_ids st) (fs_tbl st),
                     snap_tbl := filesystem_sweep (seen_snapshot_ids st) (snap_tbl st),
                     mt_tbl := filesystem_sweep (seen_mt_ids st) (mt_tbl st),
                     ex_tbl := filesystem_sweep (seen_export_ids st) (ex_tbl st)\<rparr>))"

section \<open>Observations on tables and runs\<close>

text \<open>The ids of the rows a table holds for a scope (tenancy and region).\<close>

definition scope_ids :: "string \<Rightarrow> string \<Rightarrow> sql_table \<Rightarrow> string set" where
  "scope_ids tenancy region t =
     {k. \<exists>r. t k = Some r \<and> r ''tenancy_ocid'' = PStr tenancy \<and> r ''region'' = PStr region}"


text \<open>
  A stored \<open>time_started\<close> that lies in the lookback window: it is \<open>NULL\<close>, or an
  instant not earlier than \<open>lookback_ts\<close>.
\<close>

definition in_window :: "int \<Rightarrow> pyval \<Rightarrow> bool" where
  "in_window lookback_ts v =
     (case v of PNone \<Rightarrow> True | PTime ts \<Rightarrow> lookback_ts \<le> ts | PStr s \<Rightarrow> False | PInt i \<Rightarrow> False)"

section \<open>Properties of the hierarchy resolver\<close>

lemma map_of_rev_distinct:
  "distinct (map fst xs) \<Longrightarrow> map_of (rev xs) = map_of xs"
proof (rule ext)
  fix k assume d: "distinct (map fst xs)"
  then have d': "distinct (map fst (rev xs))" by (metis distinct_rev rev_map)
  show "map_of (rev xs) k = map_of xs k"
  proof (cases "map_of xs k")
    case None
    then have "k \<notin> fst ` set xs" by (simp add: map_of_eq_None_iff)
    then have "map_of (rev xs) k = None" by (simp add: map_of_eq_None_iff)
    with None show ?thesis by simp
  next
    case (Some v)
    with d have "(k, v) \<in> set xs" by simp
    then have "(k, v) \<in> set (rev xs)" by simp
    with d' have "map_of (rev xs) k = Some v" by (simp only: map_of_eq_Some_iff)
    with Some show ?thesis by simp
  qed
qed

lemma distinct_fold_update:
  "distinct (map fst m) \<Longrightarrow> distinct (map fst (fold (\<lambda>c m. AList.update (f c) c m) cs m))"
  by (induction cs arbitrary: m) (simp_all add: distinct_update)

lemma map_of_fold_update:
  "map_of (fold (\<lambda>c m. AList.update (f c) c m) cs m) k =
     (case map_of (map (\<lambda>c. (f c, c)) (rev cs)) k of None \<Rightarrow> map_of m k | Some c \<Rightarrow> Some c)"
  by (induction cs arbitrary: m) (auto simp: update_conv' map_add_def split: option.splits)

lemma distinct_dict_of_compartments: "distinct (map fst (dict_of_compartments cs))"
  unfolding dict_of_compartments_def by (rule distinct_fold_update) simp

lemma adb_list_paths_loop_lookup:
  "map_of (adb_list_paths_loop tn tid sep cm items paths) k =
     (case map_of (rev items) k of
        None \<Rightarrow> map_of paths k
      | Some c \<Rightarrow> Some (child_path tn tid sep cm c))"
  by (induction items arbitrary: paths)
     (auto simp: update_conv' map_add_def split: option.splits)

lemma instance_list_paths_loop_lookup:
  "map_of (instance_list_paths_loop tn tid sep cm items paths) k =
     (case map_of (rev items) k of
        None \<Rightarrow> map_of paths k
      | Some c \<Rightarrow> Some (if k = tid then tn else child_path tn tid sep cm c))"
  by (induction items arbitrary: paths)
     (auto simp: update_conv' map_add_def split: option.splits)

lemma dbcs_list_paths_loop_lookup:
  "map_of (dbcs_list_paths_loop tn tid sep cm items paths) k =
     (if k = tid then map_of paths k
      else case map_of (rev items) k of
        None \<Rightarrow> map_of paths k
      | Some c \<Rightarrow> Some (child_path tn tid sep cm c))"
  by (induction items arbitrary: paths)
     (auto simp: update_conv' map_add_def split: option.splits)




lemma load_compartments_with_root_has_root:
  "\<exists>r. map_of (load_compartments_with_root tid tname resp) tid = Some r"
  unfolding load_compartments_with_root_def Let_def
  by (simp add: map_of_fold_update split: option.splits)

lemma dict_of_compartments_absent:
  "k \<notin> c_id ` set compartments \<Longrightarrow> map_of (dict_of_compartments compartments) k = None"
proof -
  assume "k \<notin> c_id ` set compartments"
  then have "map_of (map (\<lambda>c. (c_id c, c)) (rev compartments)) k = None"
    by (simp add: map_of_eq_None_iff image_image)
  then show ?thesis
    by (simp add: dict_of_compartments_def map_of_fold_update)
qed

text \<open>
  Claim C8, as the code has it. The builder of dbcs\_list.py (and of lb\_list.py, the same
  text) never gives the root id an entry. The builder of instance\_list.py, run on the map
  that \<open>load_compartments_with_root\<close> returns, maps the root id to the name stored under
  it. The builder of adb\_list.py has no root case: the root id has no entry when it is not
  among the listed compartments.
\<close>

theorem root_entry_per_script:
  "map_of (dbcs_list_build_compartment_paths tn tid comp_map sep) tid = None
   \<and> (\<exists>r. map_of (load_compartments_with_root tid tname resp) tid = Some r
          \<and> map_of (instance_list_build_compartment_paths tid
                (load_compartments_with_root tid tname resp) sep) tid = Some (c_name r))
   \<and> (tid \<notin> c_id ` set compartments \<longrightarrow>
        map_of (adb_list_build_compartment_paths tn compartments tid sep) tid = None)"
proof -
  have a: "map_of (dbcs_list_build_compartment_paths tn tid comp_map sep) tid = None"
    by (simp add: dbcs_list_build_compartment_paths_def dbcs_list_paths_loop_lookup)
  obtain r where r: "map_of (load_compartments_with_root tid tname resp) tid = Some r"
    using load_compartments_with_root_has_root by blast
  let ?cm = "load_compartments_with_root tid tname resp"
  have d: "distinct (map fst ?cm)"
    unfolding load_compartments_with_root_def Let_def
    by (rule distinct_fold_update) simp
  have "map_of (rev ?cm) tid = Some r" using r d by (simp add: map_of_rev_distinct)
  then have b: "map_of (instance_list_build_compartment_paths tid ?cm sep) tid = Some (c_name r)"
    using r by (simp add: instance_list_build_compartment_paths_def Let_def
        instance_list_paths_loop_lookup)
  have c: "tid \<notin> c_id ` set compartments \<longrightarrow>
        map_of (adb_list_build_compartment_paths tn compartments tid sep) tid = None"
  proof
    assume "tid \<notin> c_id ` set compartments"
    then have "map_of (dict_of_compartments compartments) tid = None"
      by (rule dict_of_compartments_absent)
    then have "map_of (rev (dict_of_compartments compartments)) tid = None"
      by (simp add: map_of_rev_distinct distinct_dict_of_compartments)
    then show "map_of (adb_list_build_compartment_paths tn compartments tid sep) tid = None"
      by (simp add: adb_list_build_compartment_paths_def Let_def adb_list_paths_loop_lookup)
  qed
  from a r b c show ?thesis by blast
qed

text \<open>A root with one child: no entry for the root in dbcs\_list.py and adb\_list.py.\<close>

theorem root_entry_per_script_witness:
  "map_of (dbcs_list_build_compartment_paths ''acme'' ''root''
       [(''root'', \<lparr>c_id = ''root'', c_name = ''acme'', c_compartment_id = None, c_lifecycle_state = ''ACTIVE''\<rparr>),
        (''c1'', \<lparr>c_id = ''c1'', c_name = ''teamA'', c_compartment_id = Some ''root'', c_lifecycle_state = ''ACTIVE''\<rparr>)]
       '' > '') ''root'' = None
   \<and> map_of (adb_list_build_compartment_paths ''acme''
       [\<lparr>c_id = ''c1'', c_name = ''teamA'', c_compartment_id = Some ''root'', c_lifecycle_state = ''ACTIVE''\<rparr>]
       ''root'' '' > '') ''root'' = None"
  using root_entry_per_script [of "''acme''" "''root''"
       "[(''root'', \<lparr>c_id = ''root'', c_name = ''acme'', c_compartment_id = None, c_lifecycle_state = ''ACTIVE''\<rparr>),
        (''c1'', \<lparr>c_id = ''c1'', c_name = ''teamA'', c_compartment_id = Some ''root'', c_lifecycle_state = ''ACTIVE''\<rparr>)]"
       "'' > ''" "''acme''" "[]"
       "[\<lparr>c_id = ''c1'', c_name = ''teamA'', c_compartment_id = Some ''root'', c_lifecycle_state = ''ACTIVE''\<rparr>]"]
  by simp

text \<open>In instance\_list.py the root id is a key of the returned map.\<close>

theorem instance_list_root_entry_counterexample:
  "map_of (instance_list_build_compartment_paths ''root''
       (load_compartments_with_root ''root'' ''acme''
          [\<lparr>c_id = ''c1'', c_name = ''teamA'', c_compartment_id = Some ''root'', c_lifecycle_state = ''ACTIVE''\<rparr>])
       '' > '') ''root'' = Some ''acme''"
  by (simp add: instance_list_build_compartment_paths_def load_compartments_with_root_def Let_def child_path_def)

section \<open>Properties of the store: upsert\<close>

lemma execute_upsert_other:
  "k' \<noteq> k \<Longrightarrow> execute_upsert q k v t k' = t k'"
  by (simp add: execute_upsert_def split: option.splits)

lemma execute_upsert_present:
  "\<exists>r. execute_upsert q k v t k = Some r"
  by (simp add: execute_upsert_def split: option.splits)

lemma execute_upsert_updated_column:
  "c \<in> set (update_columns q) \<Longrightarrow> c \<in> set (insert_columns q) \<Longrightarrow>
   execute_upsert q k v t k = Some r \<Longrightarrow> r c = v c"
  by (auto simp: execute_upsert_def split: option.splits)

lemma execute_upsert_kept_column:
  "c \<notin> set (update_columns q) \<Longrightarrow> t k = Some old \<Longrightarrow>
   execute_upsert q k v t k = Some r \<Longrightarrow> r c = old c"
  by (auto simp: execute_upsert_def split: option.splits)

lemma execute_upsert_inserted:
  "t k = None \<Longrightarrow> execute_upsert q k v t k = Some r \<Longrightarrow>
   r c = (if c \<in> set (insert_columns q) then v c else PNone)"
  by (auto simp: execute_upsert_def split: option.splits)

lemma execute_upsert_idem:
  "set (update_columns q) \<subseteq> set (insert_columns q) \<Longrightarrow>
   execute_upsert q k v (execute_upsert q k v t) = execute_upsert q k v t"
  by (rule ext) (auto simp: execute_upsert_def fun_eq_iff split: option.splits)

lemma adb_list_update_covers_insert:
  "set (insert_columns adb_list_UPSERT_SQL) = insert ''adb_ocid'' (set (update_columns adb_list_UPSERT_SQL))"
  by (auto simp: adb_list_UPSERT_SQL_def)

lemma adb_list_upsert_full_replace:
  assumes "execute_upsert adb_list_UPSERT_SQL k v t k = Some r"
    and "c \<in> set (insert_columns adb_list_UPSERT_SQL)" and "c \<noteq> ''adb_ocid''"
  shows "r c = v c"
proof -
  from assms(2,3) have "c \<in> set (update_columns adb_list_UPSERT_SQL)"
    using adb_list_update_covers_insert by auto
  with assms show ?thesis by (auto simp: execute_upsert_def split: option.splits)
qed

text \<open>
  Claim C6 at instance\_list.py: instance \<open>i1\<close> is first stored from compartment \<open>c1\<close>
  (\<open>teamA\<close>), then observed again in compartment \<open>c2\<close> (\<open>teamB\<close>). The second upsert
  refreshes the compartment name and the timestamp and keeps the compartment id of the
  first: the statement's update list has no \<open>compartment_id\<close>, so the write is not a
  replacement of every business column. (The statement of adb\_list.py updates every
  column but the key, see \<open>adb_list_upsert_full_replace\<close>; both are idempotent, see
  \<open>execute_upsert_idem\<close>.)
\<close>

theorem instance_upsert_keeps_compartment_id:
  "map_option (\<lambda>r. (r ''compartment_id'', r ''compartment_name'', r ''last_refreshed_utc''))
     (execute_upsert instance_list_UPSERT_SQL ''i1''
        (param (instance_row ''T'' ''R'' \<lparr>r_id = ''i1'', r_attrs = (\<lambda>c. PNone)\<rparr>
                  ''c2'' ''teamB'' (Some ''acme > teamB'') 200))
        (execute_upsert instance_list_UPSERT_SQL ''i1''
           (param (instance_row ''T'' ''R'' \<lparr>r_id = ''i1'', r_attrs = (\<lambda>c. PNone)\<rparr>
                     ''c1'' ''teamA'' (Some ''acme > teamA'') 100))
           Map.empty) ''i1'')
   = Some (PStr ''c1'', PStr ''teamB'', PTime 200)"
  by (simp add: execute_upsert_def instance_list_UPSERT_SQL_def instance_row_def param_def opt_str_def)

section \<open>Properties of the store: sweep\<close>







lemma adb_list_sweep_sub:
  "adb_list_sweep T R S t k = Some r \<Longrightarrow> t k = Some r"
  by (cases "S = {}"; cases "t k") (auto simp: adb_list_sweep_def execute_delete_def split: if_splits)

lemma instance_list_sweep_sub:
  "instance_list_sweep T R S t k = Some r \<Longrightarrow> t k = Some r"
  by (cases "S = {}"; cases "t k") (auto simp: instance_list_sweep_def execute_delete_def split: if_splits)

lemma dbcs_backup_sweep_lookup:
  "S \<noteq> {} \<Longrightarrow> dbcs_backup_sweep S t k = (if k \<in> S then t k else None)"
  by (cases "t k") (auto simp: dbcs_backup_sweep_def execute_delete_def)







section \<open>Mark and sweep: the mirror after a run\<close>

lemma adb_row_scope:
  "param (adb_row T R adb cmp cp ts) ''tenancy_ocid'' = PStr T"
  "param (adb_row T R adb cmp cp ts) ''region'' = PStr R"
  by (simp_all add: param_def adb_row_def)

lemma adb_upsert_scope:
  assumes "execute_upsert adb_list_UPSERT_SQL k (param (adb_row T R adb cmp cp ts)) t k = Some r"
  shows "r ''tenancy_ocid'' = PStr T \<and> r ''region'' = PStr R"
proof (cases "t k")
  case None
  with assms have "r = (\<lambda>c. if c \<in> set (insert_columns adb_list_UPSERT_SQL)
                          then param (adb_row T R adb cmp cp ts) c else PNone)"
    by (simp add: execute_upsert_def)
  then show ?thesis by (simp add: adb_list_UPSERT_SQL_def adb_row_scope)
next
  case (Some old)
  with assms have "r = (\<lambda>c. if c \<in> set (update_columns adb_list_UPSERT_SQL)
                          then param (adb_row T R adb cmp cp ts) c else old c)"
    by (simp add: execute_upsert_def)
  then show ?thesis by (simp add: adb_list_UPSERT_SQL_def adb_row_scope)
qed

lemma scope_ids_adb_upsert:
  "scope_ids T R (execute_upsert adb_list_UPSERT_SQL k (param (adb_row T R adb cmp cp ts)) t)
     = insert k (scope_ids T R t)"
proof (rule set_eqI)
  fix j
  let ?t' = "execute_upsert adb_list_UPSERT_SQL k (param (adb_row T R adb cmp cp ts)) t"
  show "j \<in> scope_ids T R ?t' \<longleftrightarrow> j \<in> insert k (scope_ids T R t)"
  proof (cases "j = k")
    case True
    obtain r where r: "?t' k = Some r" using execute_upsert_present by blast
    with adb_upsert_scope have "r ''tenancy_ocid'' = PStr T \<and> r ''region'' = PStr R" by blast
    with r True show ?thesis by (simp add: scope_ids_def)
  next
    case False
    then have "?t' j = t j" by (rule execute_upsert_other)
    with False show ?thesis by (simp add: scope_ids_def)
  qed
qed

lemma upsert_adb_row_fold:
  "seen (fold (upsert_adb_row T R cmp cp ts) adbs st) = seen st \<union> r_id ` set adbs
   \<and> scope_ids T R (tbl (fold (upsert_adb_row T R cmp cp ts) adbs st))
       = scope_ids T R (tbl st) \<union> r_id ` set adbs
   \<and> calls (fold (upsert_adb_row T R cmp cp ts) adbs st) = calls st"
proof (induction adbs arbitrary: st)
  case Nil
  show ?case by simp
next
  case (Cons a adbs)
  have s: "seen (upsert_adb_row T R cmp cp ts a st) = insert (r_id a) (seen st)"
    by (simp add: upsert_adb_row_def)
  have c: "calls (upsert_adb_row T R cmp cp ts a st) = calls st"
    by (simp add: upsert_adb_row_def)
  have i: "scope_ids T R (tbl (upsert_adb_row T R cmp cp ts a st)) = insert (r_id a) (scope_ids T R (tbl st))"
    by (simp add: upsert_adb_row_def scope_ids_adb_upsert)
  from Cons.IH [of "upsert_adb_row T R cmp cp ts a st"] s c i
  show ?case by auto
qed












section \<open>The sweep with an empty seen-set\<close>







section \<open>dbcs\_backup.py: the lookback window\<close>

text \<open>Every id seen so far has a stored row whose \<open>time_started\<close> lies in the window.\<close>

lemma dbcs_backup_step_skip:
  "b_time_started b = Some ts \<Longrightarrow> ts < lb \<Longrightarrow> dbcs_backup_step lb nm b st = st"
  by (simp add: dbcs_backup_step_def)

lemma dbcs_backup_step_inv:
  assumes "\<forall>k\<in>bseen st. \<exists>r. btbl st k = Some r \<and> in_window lb (r ''time_started'')"
  shows "\<forall>k\<in>bseen (dbcs_backup_step lb nm b st).
           \<exists>r. btbl (dbcs_backup_step lb nm b st) k = Some r \<and> in_window lb (r ''time_started'')"
proof (cases "case b_time_started b of Some ts \<Rightarrow> ts < lb | None \<Rightarrow> False")
  case True
  then have "dbcs_backup_step lb nm b st = st" by (simp add: dbcs_backup_step_def)
  with assms show ?thesis by simp
next
  case False
  let ?v = "param [(''id'', PStr (b_id b)), (''db_name'', PStr nm),
                   (''type'', b_attrs b ''type''),
                   (''time_started'', opt_time (b_time_started b)),
                   (''time_ended'', opt_time (b_time_ended b)),
                   (''lifecycle_state'', b_attrs b ''lifecycle_state''),
                   (''size_bytes'', b_attrs b ''size_bytes''),
                   (''display_name'', b_attrs b ''display_name''),
                   (''freeform_tags'', b_attrs b ''freeform_tags'')]"
  let ?t' = "execute_upsert dbcs_backup_UPSERT_SQL (b_id b) ?v (btbl st)"
  have st': "btbl (dbcs_backup_step lb nm b st) = ?t'"
    and sn': "bseen (dbcs_backup_step lb nm b st) = insert (b_id b) (bseen st)"
    using False by (simp_all add: dbcs_backup_step_def)
  have w: "in_window lb (opt_time (b_time_started b))"
    using False by (simp add: in_window_def opt_time_def split: option.splits)
  have v: "?v ''time_started'' = opt_time (b_time_started b)" by (simp add: param_def)
  obtain r where r: "?t' (b_id b) = Some r" using execute_upsert_present by blast
  have "r ''time_started'' = ?v ''time_started''"
    by (rule execute_upsert_updated_column [OF _ _ r]) (simp_all add: dbcs_backup_UPSERT_SQL_def)
  with v w have rw: "in_window lb (r ''time_started'')" by simp
  show ?thesis
  proof
    fix k assume "k \<in> bseen (dbcs_backup_step lb nm b st)"
    then have k: "k = b_id b \<or> k \<in> bseen st" by (simp add: sn')
    show "\<exists>r. btbl (dbcs_backup_step lb nm b st) k = Some r \<and> in_window lb (r ''time_started'')"
    proof (cases "k = b_id b")
      case True
      with r rw st' show ?thesis by simp
    next
      case False
      with k have "k \<in> bseen st" by simp
      moreover have "?t' k = btbl st k" using False by (rule execute_upsert_other)
      ultimately show ?thesis using assms st' by simp
    qed
  qed
qed

lemma dbcs_backup_fold_inv:
  "\<forall>k\<in>bseen st. \<exists>r. btbl st k = Some r \<and> in_window lb (r ''time_started'') \<Longrightarrow>
   \<forall>k\<in>bseen (fold (dbcs_backup_step lb nm) bs st).
      \<exists>r. btbl (fold (dbcs_backup_step lb nm) bs st) k = Some r \<and> in_window lb (r ''time_started'')"
proof (induction bs arbitrary: st)
  case Nil
  then show ?case by simp
next
  case (Cons b bs)
  from Cons.IH [OF dbcs_backup_step_inv [OF Cons.prems]] show ?case by simp
qed

lemma dbcs_backup_pages_inv:
  "dbcs_backup_pages n lbk lb db nm page st = Some (Inr st') \<Longrightarrow>
   \<forall>k\<in>bseen st. \<exists>r. btbl st k = Some r \<and> in_window lb (r ''time_started'') \<Longrightarrow>
   \<forall>k\<in>bseen st'. \<exists>r. btbl st' k = Some r \<and> in_window lb (r ''time_started'')"
proof (induction n arbitrary: page st)
  case 0
  then show ?case by simp
next
  case (Suc n)
  show ?case
  proof (cases "lbk db page")
    case (Inl e)
    with Suc.prems(1) show ?thesis by simp
  next
    case (Inr p)
    obtain bs nxt where p: "p = (bs, nxt)" by (cases p)
    let ?s = "fold (dbcs_backup_step lb nm) bs st"
    have inv: "\<forall>k\<in>bseen ?s. \<exists>r. btbl ?s k = Some r \<and> in_window lb (r ''time_started'')"
      using Suc.prems(2) by (rule dbcs_backup_fold_inv)
    show ?thesis
    proof (cases "nxt = None \<or> nxt = Some []")
      case True
      with Inr p Suc.prems(1) have "st' = ?s" by (auto simp: Let_def)
      with inv show ?thesis by simp
    next
      case False
      then obtain tok where tok: "nxt = Some tok" "tok \<noteq> []" by (cases nxt) auto
      with Inr p Suc.prems(1)
      have "dbcs_backup_pages n lbk lb db nm (Some tok) ?s = Some (Inr st')"
        by (simp add: Let_def)
      from Suc.IH [OF this inv] show ?thesis .
    qed
  qed
qed

lemma dbcs_backup_loop_inv:
  "dbcs_backup_loop n gd lbk lb dbs st = Some (Inr st') \<Longrightarrow>
   \<forall>k\<in>bseen st. \<exists>r. btbl st k = Some r \<and> in_window lb (r ''time_started'') \<Longrightarrow>
   \<forall>k\<in>bseen st'. \<exists>r. btbl st' k = Some r \<and> in_window lb (r ''time_started'')"
proof (induction dbs arbitrary: st)
  case Nil
  then show ?case by simp
next
  case (Cons db dbs)
  from Cons.prems(1) obtain s1 where
    p: "dbcs_backup_pages n lbk lb db (dbcs_db_name gd db) None st = Some (Inr s1)"
    and l: "dbcs_backup_loop n gd lbk lb dbs s1 = Some (Inr st')"
    by (auto split: option.splits sum.splits)
  from Cons.IH [OF l dbcs_backup_pages_inv [OF p Cons.prems(2)]] show ?case .
qed

text \<open>
  Claim C10. A backup whose \<open>time_started\<close> is earlier than the lookback instant is
  skipped: it is not upserted and its id does not join the seen-set. When \<open>main\<close> of
  dbcs\_backup.py returns with a non-empty seen-set, the stored rows are exactly those of
  the seen ids, and the \<open>time_started\<close> of each is \<open>NULL\<close> or lies within the last 14
  days before the run's clock reading: every stored row of an out-of-window backup has been
  deleted by the sweep.
\<close>

theorem dbcs_backup_lookback_window:
  "(\<forall>ts st. b_time_started b = Some ts \<and> ts < lookback_ts \<longrightarrow>
       dbcs_backup_step lookback_ts db_name b st = st)
   \<and> (\<forall>st. dbcs_backup_main n DB_OCIDS get_database list_backups now t = Some (Inr st)
            \<and> bseen st \<noteq> {} \<longrightarrow>
         dom (btbl st) = bseen st
       \<and> (\<forall>k r. btbl st k = Some r \<longrightarrow> in_window (now - 14 * 86400) (r ''time_started'')))"
proof -
  have skip: "\<forall>ts st. b_time_started b = Some ts \<and> ts < lookback_ts \<longrightarrow>
       dbcs_backup_step lookback_ts db_name b st = st"
    by (simp add: dbcs_backup_step_skip)
  have run: "dom (btbl st) = bseen st
       \<and> (\<forall>k r. btbl st k = Some r \<longrightarrow> in_window (now - 14 * 86400) (r ''time_started''))"
    if h: "dbcs_backup_main n DB_OCIDS get_database list_backups now t = Some (Inr st)
               \<and> bseen st \<noteq> {}" for st
  proof -
    let ?lb = "now - 14 * 86400"
    let ?st0 = "\<lparr>btbl = t, bseen = {}, total = 0\<rparr>"
    have ne: "DB_OCIDS \<noteq> []" using h by (auto simp: dbcs_backup_main_def)
    with h obtain s1 where
      l: "dbcs_backup_loop n get_database list_backups ?lb DB_OCIDS ?st0 = Some (Inr s1)"
      and st: "st = s1\<lparr>btbl := dbcs_backup_sweep (bseen s1) (btbl s1)\<rparr>"
      by (auto simp: dbcs_backup_main_def LOOKBACK_DAYS_def Let_def split: option.splits sum.splits)
    have inv: "\<forall>k\<in>bseen s1. \<exists>r. btbl s1 k = Some r \<and> in_window ?lb (r ''time_started'')"
      by (rule dbcs_backup_loop_inv [OF l]) simp
    have sn: "bseen s1 \<noteq> {}" using h st by simp
    have look: "\<And>k. btbl st k = (if k \<in> bseen s1 then btbl s1 k else None)"
      using st sn by (simp add: dbcs_backup_sweep_lookup)
    have "dom (btbl st) = bseen s1"
      using inv look by (auto simp: dom_def)
    then have d: "dom (btbl st) = bseen st" using st by simp
    have w: "\<forall>k r. btbl st k = Some r \<longrightarrow> in_window ?lb (r ''time_started'')"
    proof (intro allI impI)
      fix k r assume "btbl st k = Some r"
      with look have "k \<in> bseen s1" and "btbl s1 k = Some r" by (auto split: if_splits)
      with inv show "in_window ?lb (r ''time_started'')" by auto
    qed
    from d w show ?thesis by simp
  qed
  from skip run show ?thesis by blast
qed

text \<open>
  Two pages: an out-of-window backup \<open>old\<close>, already stored by an earlier run, and an
  in-window backup \<open>new\<close>. After the run the table holds \<open>new\<close> alone.
\<close>

theorem dbcs_backup_lookback_window_witness:
  "\<exists>st. dbcs_backup_main 2 [''ocid.db1'']
          (\<lambda>d. Inr (Some ''DB1'', None, None))
          (\<lambda>d page. if page = None
             then Inr ([\<lparr>b_id = ''old'', b_time_started = Some 50, b_time_ended = None,
                          b_attrs = (\<lambda>c. PNone)\<rparr>], Some ''p2'')
             else Inr ([\<lparr>b_id = ''new'', b_time_started = Some 150, b_time_ended = None,
                          b_attrs = (\<lambda>c. PNone)\<rparr>], None))
          1209700
          [''old'' \<mapsto> (\<lambda>c. if c = ''id'' then PStr ''old''
                           else if c = ''time_started'' then PTime 50 else PNone)]
        = Some (Inr st)
      \<and> bseen st = {''new''}
      \<and> dom (btbl st) = {''new''}
      \<and> dbcs_backup_step 100 ''DB1''
           \<lparr>b_id = ''old'', b_time_started = Some 50, b_time_ended = None, b_attrs = (\<lambda>c. PNone)\<rparr>
           \<lparr>btbl = Map.empty, bseen = {}, total = 0\<rparr>
         = \<lparr>btbl = Map.empty, bseen = {}, total = 0\<rparr>"
proof -
  let ?old = "\<lparr>b_id = ''old'', b_time_started = Some 50, b_time_ended = None, b_attrs = (\<lambda>c. PNone)\<rparr>"
  let ?gd = "\<lambda>d::string. (Inr (Some ''DB1'', None, None)
               :: py_exception + string option \<times> string option \<times> string option)"
  let ?lb = "\<lambda>(d::string) (page::string option). if page = None
             then (Inr ([\<lparr>b_id = ''old'', b_time_started = Some 50, b_time_ended = None,
                          b_attrs = (\<lambda>c. PNone)\<rparr>], Some ''p2'')
                     :: py_exception + backup list \<times> string option)
             else Inr ([\<lparr>b_id = ''new'', b_time_started = Some 150, b_time_ended = None,
                          b_attrs = (\<lambda>c. PNone)\<rparr>], None)"
  let ?t = "[''old'' \<mapsto> (\<lambda>c. if c = ''id'' then PStr ''old''
                           else if c = ''time_started'' then PTime 50 else PNone)]"
  have "\<exists>st. dbcs_backup_main 2 [''ocid.db1''] ?gd ?lb 1209700 ?t = Some (Inr st)
            \<and> bseen st = {''new''}"
    by (simp add: dbcs_backup_main_def LOOKBACK_DAYS_def dbcs_backup_step_def dbcs_db_name_def
        py_or_def Let_def numeral_2_eq_2)
  then obtain st where r: "dbcs_backup_main 2 [''ocid.db1''] ?gd ?lb 1209700 ?t = Some (Inr st)"
    and s: "bseen st = {''new''}" by blast
  note th = dbcs_backup_lookback_window [of ?old 100 "''DB1''" 2 "[''ocid.db1'']" ?gd ?lb 1209700 ?t]
  from th r s have d: "dom (btbl st) = {''new''}" by auto
  from th have k: "dbcs_backup_step 100 ''DB1'' ?old \<lparr>btbl = Map.empty, bseen = {}, total = 0\<rparr>
         = \<lparr>btbl = Map.empty, bseen = {}, total = 0\<rparr>" by simp
  from r s d k show ?thesis by blast
qed

section \<open>Throttled and failed listings\<close>




subsection \<open>A failed run of adb\_list.py keeps the stored rows\<close>

text \<open>
  When a listing of adb\_list.py raises an error other than throttling, \<open>main\<close> ends with
  it before the sweep, and every row stored before the run is still stored.
\<close>

lemma execute_upsert_dom: "dom (execute_upsert q k v t) = insert k (dom t)"
  by (auto simp: execute_upsert_def dom_def split: option.splits if_splits)

lemma upsert_adb_row_fold_dom:
  "dom (tbl st) \<subseteq> dom (tbl (fold (upsert_adb_row T R cmp cp ts) adbs st))"
proof (induction adbs arbitrary: st)
  case Nil
  show ?case by simp
next
  case (Cons a adbs)
  have "dom (tbl st) \<subseteq> dom (tbl (upsert_adb_row T R cmp cp ts a st))"
    by (auto simp: upsert_adb_row_def execute_upsert_dom)
  with Cons.IH [of "upsert_adb_row T R cmp cp ts a st"] show ?case by auto
qed

lemma adb_list_loop_failed_dom:
  "adb_list_loop T R ts cps api comps st = Inl (e, st') \<Longrightarrow> dom (tbl st) \<subseteq> dom (tbl st')"
proof (induction comps arbitrary: st)
  case Nil
  then show ?case by simp
next
  case (Cons cmp rest)
  let ?r = "api (c_id cmp) (count_list (calls st) (c_id cmp))"
  let ?st1 = "st\<lparr>calls := calls st @ [c_id cmp]\<rparr>"
  show ?case
  proof (cases ?r)
    case (Inl x)
    show ?thesis
    proof (cases "x = ServiceError 429")
      case True
      with Inl Cons.prems
      have "adb_list_loop T R ts cps api rest (?st1\<lparr>slept_ms := slept_ms ?st1 + 3000\<rparr>) = Inl (e, st')"
        by (simp add: Let_def)
      from Cons.IH [OF this] show ?thesis by simp
    next
      case False
      with Inl Cons.prems have "st' = ?st1"
        by (cases x) (auto simp: Let_def)
      then show ?thesis by simp
    qed
  next
    case (Inr adbs)
    show ?thesis
    proof (cases "adbs = []")
      case True
      with Inr Cons.prems have "adb_list_loop T R ts cps api rest ?st1 = Inl (e, st')"
        by (simp add: Let_def)
      from Cons.IH [OF this] show ?thesis by simp
    next
      case False
      let ?st2 = "fold (upsert_adb_row T R cmp (map_of cps (c_id cmp)) ts) adbs ?st1"
      from False Inr Cons.prems
      have "adb_list_loop T R ts cps api rest (?st2\<lparr>slept_ms := slept_ms ?st2 + 200\<rparr>) = Inl (e, st')"
        by (simp add: Let_def)
      from Cons.IH [OF this] upsert_adb_row_fold_dom [of ?st1 T R cmp "map_of cps (c_id cmp)" ts adbs]
      show ?thesis by auto
    qed
  qed
qed

lemma adb_list_failed_run_keeps_rows:
  "adb_list_main TN T R ts resp api t = Inl (e, st) \<Longrightarrow> dom t \<subseteq> dom (tbl st)"
proof -
  assume "adb_list_main TN T R ts resp api t = Inl (e, st)"
  then have "adb_list_loop T R ts
               (adb_list_build_compartment_paths TN (list_all_compartments resp) T '' > '') api
               (list_all_compartments resp) \<lparr>tbl = t, seen = {}, calls = [], slept_ms = 0\<rparr>
             = Inl (e, st)"
    by (auto simp: adb_list_main_def Let_def split: sum.splits)
  from adb_list_loop_failed_dom [OF this] show ?thesis by simp
qed

subsection \<open>A failed listing followed by the sweep\<close>

text \<open>
  Claim C3 at two scripts. adb\_backup.py: the table holds backup \<open>b1\<close> of database
  \<open>a1\<close>; in the run the listing for \<open>a1\<close> fails with status 500 and the listing for
  \<open>a2\<close> returns \<open>b2\<close>. The loop logs the failure and goes on, the sweep runs with the
  seen-set \<open>{b2}\<close> and deletes \<open>b1\<close>. instance\_list.py: the table holds instance \<open>i1\<close>
  of compartment \<open>c1\<close>; the listing for \<open>c1\<close> fails with status 500 (\<open>list_instances\<close>
  returns the empty list) and the listing for \<open>c2\<close> returns \<open>i2\<close>; the sweep deletes
  \<open>i1\<close>.
\<close>

theorem failed_listing_rows_swept:
  "bseen (adb_backup_main [''a1'', ''a2'']
      (\<lambda>a. Inr (''AVAILABLE'', a))
      (\<lambda>a. if a = ''a1'' then Inl (ServiceError 500)
             else Inr [\<lparr>b_id = ''b2'', b_time_started = Some 10, b_time_ended = Some 20,
                        b_attrs = (\<lambda>c. PNone)\<rparr>])
      (\<lambda>n. 100)
      [''b1'' \<mapsto> (\<lambda>c. if c = ''backup_id'' then PStr ''b1''
                      else if c = ''adb_name'' then PStr ''a1'' else PNone)]) = {''b2''}
   \<and> btbl (adb_backup_main [''a1'', ''a2'']
      (\<lambda>a. Inr (''AVAILABLE'', a))
      (\<lambda>a. if a = ''a1'' then Inl (ServiceError 500)
             else Inr [\<lparr>b_id = ''b2'', b_time_started = Some 10, b_time_ended = Some 20,
                        b_attrs = (\<lambda>c. PNone)\<rparr>])
      (\<lambda>n. 100)
      [''b1'' \<mapsto> (\<lambda>c. if c = ''backup_id'' then PStr ''b1''
                      else if c = ''adb_name'' then PStr ''a1'' else PNone)]) ''b1'' = None
   \<and> seen (instance_list_main ''T'' ''acme'' ''R'' 100
      [\<lparr>c_id = ''c1'', c_name = ''teamA'', c_compartment_id = Some ''T'', c_lifecycle_state = ''ACTIVE''\<rparr>,
       \<lparr>c_id = ''c2'', c_name = ''teamB'', c_compartment_id = Some ''T'', c_lifecycle_state = ''ACTIVE''\<rparr>]
      (\<lambda>cid n. if cid = ''c1'' then Inl (ServiceError 500)
                 else Inr [\<lparr>r_id = ''i2'', r_attrs = (\<lambda>c. PNone)\<rparr>])
      [''i1'' \<mapsto> (\<lambda>c. if c = ''instance_id'' then PStr ''i1''
                      else if c = ''tenancy_ocid'' then PStr ''T''
                      else if c = ''region'' then PStr ''R''
                      else if c = ''compartment_id'' then PStr ''c1'' else PNone)]) = {''i2''}
   \<and> tbl (instance_list_main ''T'' ''acme'' ''R'' 100
      [\<lparr>c_id = ''c1'', c_name = ''teamA'', c_compartment_id = Some ''T'', c_lifecycle_state = ''ACTIVE''\<rparr>,
       \<lparr>c_id = ''c2'', c_name = ''teamB'', c_compartment_id = Some ''T'', c_lifecycle_state = ''ACTIVE''\<rparr>]
      (\<lambda>cid n. if cid = ''c1'' then Inl (ServiceError 500)
                 else Inr [\<lparr>r_id = ''i2'', r_attrs = (\<lambda>c. PNone)\<rparr>])
      [''i1'' \<mapsto> (\<lambda>c. if c = ''instance_id'' then PStr ''i1''
                      else if c = ''tenancy_ocid'' then PStr ''T''
                      else if c = ''region'' then PStr ''R''
                      else if c = ''compartment_id'' then PStr ''c1'' else PNone)]) ''i1'' = None"
proof -
  have a: "bseen (adb_backup_main [''a1'', ''a2'']
      (\<lambda>a. Inr (''AVAILABLE'', a))
      (\<lambda>a. if a = ''a1'' then Inl (ServiceError 500)
             else Inr [\<lparr>b_id = ''b2'', b_time_started = Some 10, b_time_ended = Some 20,
                        b_attrs = (\<lambda>c. PNone)\<rparr>])
      (\<lambda>n. 100)
      [''b1'' \<mapsto> (\<lambda>c. if c = ''backup_id'' then PStr ''b1''
                      else if c = ''adb_name'' then PStr ''a1'' else PNone)]) = {''b2''}"
    by (simp add: adb_backup_main_def adb_backup_step_def save_backup_to_mysql_def Let_def)
  have b: "btbl (adb_backup_main [''a1'', ''a2'']
      (\<lambda>a. Inr (''AVAILABLE'', a))
      (\<lambda>a. if a = ''a1'' then Inl (ServiceError 500)
             else Inr [\<lparr>b_id = ''b2'', b_time_started = Some 10, b_time_ended = Some 20,
                        b_attrs = (\<lambda>c. PNone)\<rparr>])
      (\<lambda>n. 100)
      [''b1'' \<mapsto> (\<lambda>c. if c = ''backup_id'' then PStr ''b1''
                      else if c = ''adb_name'' then PStr ''a1'' else PNone)]) ''b1'' = None"
    by (simp add: adb_backup_main_def adb_backup_step_def save_backup_to_mysql_def Let_def
        adb_backup_sweep_def execute_delete_def execute_upsert_def)
  have c: "seen (instance_list_main ''T'' ''acme'' ''R'' 100
      [\<lparr>c_id = ''c1'', c_name = ''teamA'', c_compartment_id = Some ''T'', c_lifecycle_state = ''ACTIVE''\<rparr>,
       \<lparr>c_id = ''c2'', c_name = ''teamB'', c_compartment_id = Some ''T'', c_lifecycle_state = ''ACTIVE''\<rparr>]
      (\<lambda>cid n. if cid = ''c1'' then Inl (ServiceError 500)
                 else Inr [\<lparr>r_id = ''i2'', r_attrs = (\<lambda>c. PNone)\<rparr>])
      [''i1'' \<mapsto> (\<lambda>c. if c = ''instance_id'' then PStr ''i1''
                      else if c = ''tenancy_ocid'' then PStr ''T''
                      else if c = ''region'' then PStr ''R''
                      else if c = ''compartment_id'' then PStr ''c1'' else PNone)]) = {''i2''}"
    by (simp add: instance_list_main_def instance_list_active_comps_def
        load_compartments_with_root_def list_instances_def upsert_instance_def Let_def)
  have d: "tbl (instance_list_main ''T'' ''acme'' ''R'' 100
      [\<lparr>c_id = ''c1'', c_name = ''teamA'', c_compartment_id = Some ''T'', c_lifecycle_state = ''ACTIVE''\<rparr>,
       \<lparr>c_id = ''c2'', c_name = ''teamB'', c_compartment_id = Some ''T'', c_lifecycle_state = ''ACTIVE''\<rparr>]
      (\<lambda>cid n. if cid = ''c1'' then Inl (ServiceError 500)
                 else Inr [\<lparr>r_id = ''i2'', r_attrs = (\<lambda>c. PNone)\<rparr>])
      [''i1'' \<mapsto> (\<lambda>c. if c = ''instance_id'' then PStr ''i1''
                      else if c = ''tenancy_ocid'' then PStr ''T''
                      else if c = ''region'' then PStr ''R''
                      else if c = ''compartment_id'' then PStr ''c1'' else PNone)]) ''i1'' = None"
    by (simp add: instance_list_main_def instance_list_active_comps_def
        load_compartments_with_root_def list_instances_def upsert_instance_def Let_def
        instance_list_sweep_def execute_delete_def execute_upsert_def)
  from a b c d show ?thesis by (intro conjI)
qed

section \<open>filesystem\_list.py: a fetch that answers not-found\<close>

lemma fetch_snapshots_not_found:
  "list_snapshots apis fs_id = Inl (ServiceError 404) \<Longrightarrow> fetch_snapshots apis fs_id = Inr ([], 0)"
  by (simp add: fetch_snapshots_def)

lemma filesystem_fs_loop_not_found:
  "list_snapshots apis (r_id fs) = Inl (ServiceError 404) \<Longrightarrow>
   \<exists>st1. filesystem_fs_loop apis run_ts cmp comp_path [fs] st = Inr st1
        \<and> seen_fs_ids st1 = insert (r_id fs) (seen_fs_ids st)
        \<and> seen_snapshot_ids st1 = seen_snapshot_ids st"
  by (simp add: fetch_snapshots_def Let_def)

lemma filesystem_mt_loop_export_not_found:
  "m_export_set_id mt = Some es \<Longrightarrow> es \<noteq> [] \<Longrightarrow>
   list_exports apis (c_id cmp) es = Inl (ServiceError 404) \<Longrightarrow>
   \<exists>st1. filesystem_mt_loop apis run_ts cmp comp_path (mt # rest) st = Inl (ServiceError 404, st1)"
  by (simp add: Let_def)

text \<open>
  Claim C9 at filesystem\_list.py. One compartment, one availability domain, one file
  system \<open>fs1\<close> and one mount target \<open>mt1\<close> with an export set; the snapshot fetch
  answers status 404. When the export fetch answers 404 too, the script ends with that
  exception before its sweeps: the snapshot fetch was taken as empty (\<open>fs1\<close> and \<open>mt1\<close>
  are stored), the export fetch was not. When the export fetch returns no export, the run
  completes.
\<close>

theorem export_fetch_not_found_aborts:
  "(case filesystem_list_main
      \<lparr>list_file_systems = (\<lambda>ad c. Inr [\<lparr>r_id = ''fs1'', r_attrs = (\<lambda>c. PNone)\<rparr>]),
       list_mount_targets = (\<lambda>ad c. Inr [\<lparr>m_id = ''mt1'', m_export_set_id = Some ''es1'',
                                           m_attrs = (\<lambda>c. PNone)\<rparr>]),
       list_snapshots = (\<lambda>f. Inl (ServiceError 404)),
       list_exports = (\<lambda>c es. Inl (ServiceError 404))\<rparr>
      100 ''T'' ''acme''
      [\<lparr>c_id = ''c1'', c_name = ''teamA'', c_compartment_id = Some ''T'', c_lifecycle_state = ''ACTIVE''\<rparr>]
      [''AD-1'']
      Map.empty Map.empty Map.empty Map.empty of
     Inl (e, st) \<Rightarrow> e = ServiceError 404 \<and> seen_fs_ids st = {''fs1''} \<and> seen_mt_ids st = {''mt1''}
                     \<and> seen_snapshot_ids st = {} \<and> seen_export_ids st = {}
   | Inr st \<Rightarrow> False)
   \<and> (case filesystem_list_main
      \<lparr>list_file_systems = (\<lambda>ad c. Inr [\<lparr>r_id = ''fs1'', r_attrs = (\<lambda>c. PNone)\<rparr>]),
       list_mount_targets = (\<lambda>ad c. Inr [\<lparr>m_id = ''mt1'', m_export_set_id = Some ''es1'',
                                           m_attrs = (\<lambda>c. PNone)\<rparr>]),
       list_snapshots = (\<lambda>f. Inl (ServiceError 404)),
       list_exports = (\<lambda>c es. Inr [])\<rparr>
      100 ''T'' ''acme''
      [\<lparr>c_id = ''c1'', c_name = ''teamA'', c_compartment_id = Some ''T'', c_lifecycle_state = ''ACTIVE''\<rparr>]
      [''AD-1'']
      Map.empty Map.empty Map.empty Map.empty of
     Inl err \<Rightarrow> False
   | Inr st \<Rightarrow> seen_fs_ids st = {''fs1''} \<and> seen_mt_ids st = {''mt1''}
                \<and> dom (fs_tbl st) = {''fs1''})"
  by (simp add: filesystem_list_main_def list_all_compartments_def dict_of_compartments_def
      fetch_snapshots_def Let_def filesystem_sweep_def execute_delete_def execute_upsert_def
      dom_def)

end
